theory Spec2Isabelle
  imports Complex_Main "HOL-Library.Word"
begin

unbundle bit_operations_syntax

section \<open>JSON instance values and the cursor\<close>

text \<open>
  The validator of \<^verbatim>\<open>sql/json_schema.cc\<close> reads the schema and the instance through a
  \<^verbatim>\<open>json_engine_t\<close> cursor of the JSON library, whose sources are not in this repository
  snapshot. The cursor positioned on a value is held here as the parsed value itself:
  \<^verbatim>\<open>je->value_type\<close> is the constructor, \<^verbatim>\<open>je->value_len\<close> of a string is the length
  of its bytes, and the result of \<^verbatim>\<open>strntod\<close> on a number is the number's value. A double
  is held as a real, rounding is not modelled.

  A scan loop
  \<^verbatim>\<open>while (json_scan_next(&curr_je)==0 && level <= curr_je.stack_p)\<close>
  with \<^verbatim>\<open>json_read_value\<close> and \<^verbatim>\<open>json_skip_level\<close> in its body is the traversal of the
  elements of the array, or of the members of the object, the cursor stands on. The
  error returns of the scanner (malformed text) and of the allocator are not modelled:
  a \<^typ>\<open>'a list\<close> of members is well-formed text.
\<close>

datatype json_value_types =
    JSON_VALUE_OBJECT | JSON_VALUE_ARRAY | JSON_VALUE_STRING | JSON_VALUE_NUMBER
  | JSON_VALUE_TRUE | JSON_VALUE_FALSE | JSON_VALUE_NULL

datatype json =
    JObject "(string \<times> json) list"
  | JArray "json list"
  | JString string
  | JNumber real
  | JTrue
  | JFalse
  | JNull

fun value_type :: "json \<Rightarrow> json_value_types" where
  "value_type (JObject ms) = JSON_VALUE_OBJECT"
| "value_type (JArray es) = JSON_VALUE_ARRAY"
| "value_type (JString s) = JSON_VALUE_STRING"
| "value_type (JNumber r) = JSON_VALUE_NUMBER"
| "value_type JTrue = JSON_VALUE_TRUE"
| "value_type JFalse = JSON_VALUE_FALSE"
| "value_type JNull = JSON_VALUE_NULL"

type_synonym uint = "32 word"

text \<open>
  What the code takes from files that are not among the sources is a parameter of the
  model: the numbering of \<^verbatim>\<open>enum json_value_types\<close> and the macro \<^verbatim>\<open>TRUE\<close>,
  \<^verbatim>\<open>json_get_normalized_string\<close> (\<open>None\<close> when it sets \<^verbatim>\<open>err\<close>),
  \<^verbatim>\<open>json_assign_type\<close> (the new bit set and the value it returns), and the regular
  expression engine (\<open>None\<close> when \<^verbatim>\<open>recompile\<close> or \<^verbatim>\<open>exec\<close> fails, otherwise what
  \<^verbatim>\<open>match\<close> answers for a pattern and a subject).
\<close>

record externals =
  value_type_code :: "json_value_types \<Rightarrow> nat"
  TRUE_macro :: nat
  json_get_normalized_string :: "json \<Rightarrow> string option"
  json_assign_type :: "uint \<Rightarrow> json \<Rightarrow> uint \<times> bool"
  regexp_match :: "string \<Rightarrow> string \<Rightarrow> bool option"

section \<open>Faults\<close>

text \<open>
  Behaviour that C++ leaves undefined is a value of the model: a call through a null
  pointer, a division by zero, a conversion of a double that does not fit the target
  integer type, a pointer to no keyword. \<open>Cursor_dependent\<close> marks the places where the
  code lets the cursor run into or past text that the model of the cursor does not
  hold, so that the outcome is the scanner's; the model gives no verdict there.
\<close>

datatype fault =
    Null_pointer_dereference
  | Division_by_zero
  | Conversion_out_of_range
  | Invalid_pointer
  | Cursor_dependent

definition double_to_long_long :: "real \<Rightarrow> fault + int" where
  "double_to_long_long d =
     (let t = (if 0 \<le> d then \<lfloor>d\<rfloor> else \<lceil>d\<rceil>)
      in if - (2 ^ 63) \<le> t \<and> t < 2 ^ 63 then Inr t else Inl Conversion_out_of_range)"

definition double_to_int :: "real \<Rightarrow> fault + int" where
  "double_to_int d =
     (let t = (if 0 \<le> d then \<lfloor>d\<rfloor> else \<lceil>d\<rceil>)
      in if - (2 ^ 31) \<le> t \<and> t < 2 ^ 31 then Inr t else Inl Conversion_out_of_range)"

definition double_to_uint :: "real \<Rightarrow> fault + uint" where
  "double_to_uint d =
     (let t = (if 0 \<le> d then \<lfloor>d\<rfloor> else \<lceil>d\<rceil>)
      in if 0 \<le> t \<and> t < 2 ^ 32 then Inr (word_of_int t) else Inl Conversion_out_of_range)"

section \<open>Keywords that look at the value only\<close>

text \<open>
  Every \<^verbatim>\<open>validate\<close> returns \<^verbatim>\<open>true\<close> when the instance is rejected and \<^verbatim>\<open>false\<close> when
  it is accepted; the model keeps that polarity.
\<close>

definition Json_schema_annotation_validate :: "json \<Rightarrow> bool" where
  "Json_schema_annotation_validate je = False"

definition Json_schema_format_validate :: "json \<Rightarrow> bool" where
  "Json_schema_format_validate je = False"

definition Json_schema_type_validate :: "externals \<Rightarrow> uint \<Rightarrow> json \<Rightarrow> bool" where
  "Json_schema_type_validate ext type je =
     (\<not> ((push_bit (value_type_code ext (value_type je)) (1::uint)) AND type \<noteq> 0))"

definition Json_schema_const_validate ::
  "externals \<Rightarrow> string option \<Rightarrow> json_value_types \<Rightarrow> json \<Rightarrow> fault + bool" where
  "Json_schema_const_validate ext const_json_value type je =
     (if type \<noteq> value_type je then Inr True
      else if value_type_code ext (value_type je) \<le> value_type_code ext JSON_VALUE_NUMBER then
        (case (case je of JString s \<Rightarrow> Some s | _ \<Rightarrow> json_get_normalized_string ext je) of
           None \<Rightarrow> Inr True
         | Some a_res \<Rightarrow>
             (case const_json_value of
                None \<Rightarrow> Inl Null_pointer_dereference
              | Some c \<Rightarrow> Inr (a_res \<noteq> c)))
      else Inr (value_type je \<noteq> type))"

definition HAS_TRUE_VAL :: uint where "HAS_TRUE_VAL = 2"
definition HAS_FALSE_VAL :: uint where "HAS_FALSE_VAL = 4"
definition HAS_NULL_VAL :: uint where "HAS_NULL_VAL = 8"

definition Json_schema_enum_validate ::
  "externals \<Rightarrow> string list \<Rightarrow> uint \<Rightarrow> json \<Rightarrow> bool" where
  "Json_schema_enum_validate ext enum_values enum_scalar je =
     (if value_type_code ext JSON_VALUE_NUMBER < value_type_code ext (value_type je)
         \<and> value_type je = JSON_VALUE_TRUE then enum_scalar AND HAS_TRUE_VAL = 0
      else if value_type_code ext JSON_VALUE_NUMBER < value_type_code ext (value_type je)
         \<and> value_type je = JSON_VALUE_FALSE then enum_scalar AND HAS_FALSE_VAL = 0
      else if value_type_code ext JSON_VALUE_NUMBER < value_type_code ext (value_type je)
         \<and> value_type je = JSON_VALUE_NULL then enum_scalar AND HAS_NULL_VAL = 0
      else (case json_get_normalized_string ext je of
              None \<Rightarrow> True
            | Some norm_str \<Rightarrow> norm_str \<notin> set enum_values))"

definition Json_schema_maximum_validate :: "real \<Rightarrow> json \<Rightarrow> bool" where
  "Json_schema_maximum_validate maximum je =
     (case je of JNumber val \<Rightarrow> (if val \<le> maximum then False else True) | _ \<Rightarrow> False)"

definition Json_schema_minimum_validate :: "real \<Rightarrow> json \<Rightarrow> bool" where
  "Json_schema_minimum_validate minimum je =
     (case je of JNumber val \<Rightarrow> (if val \<ge> minimum then False else True) | _ \<Rightarrow> False)"

definition Json_schema_ex_minimum_validate :: "real \<Rightarrow> json \<Rightarrow> bool" where
  "Json_schema_ex_minimum_validate ex_min je =
     (case je of JNumber val \<Rightarrow> (if val > ex_min then False else True) | _ \<Rightarrow> False)"

definition Json_schema_ex_maximum_validate :: "real \<Rightarrow> json \<Rightarrow> bool" where
  "Json_schema_ex_maximum_validate ex_max je =
     (case je of JNumber val \<Rightarrow> (if val < ex_max then False else True) | _ \<Rightarrow> False)"

text \<open>
  \<^verbatim>\<open>double temp= val / this->multiple_of; bool res= (temp - (long long int)temp) == 0;\<close>
  The division has no test of the divisor before it.
\<close>

definition Json_schema_multiple_of_validate :: "real \<Rightarrow> json \<Rightarrow> fault + bool" where
  "Json_schema_multiple_of_validate multiple_of je =
     (case je of
        JNumber val \<Rightarrow>
          (if multiple_of = 0 then Inl Division_by_zero
           else (let temp = val / multiple_of
                 in case double_to_long_long temp of
                      Inl f \<Rightarrow> Inl f
                    | Inr t \<Rightarrow> (let res = (temp - of_int t = 0) in Inr (\<not> res))))
      | _ \<Rightarrow> Inr False)"

definition Json_schema_max_len_validate :: "uint \<Rightarrow> json \<Rightarrow> bool" where
  "Json_schema_max_len_validate max_len je =
     (case je of
        JString s \<Rightarrow> (if (word_of_nat (length s) :: uint) \<le> max_len then False else True)
      | _ \<Rightarrow> False)"

definition Json_schema_min_len_validate :: "uint \<Rightarrow> json \<Rightarrow> bool" where
  "Json_schema_min_len_validate min_len je =
     (case je of
        JString s \<Rightarrow> (if (word_of_nat (length s) :: uint) \<ge> min_len then False else True)
      | _ \<Rightarrow> False)"

definition Json_schema_pattern_validate ::
  "externals \<Rightarrow> string option \<Rightarrow> json \<Rightarrow> fault + bool" where
  "Json_schema_pattern_validate ext pattern je =
     (case je of
        JString s \<Rightarrow>
          (case pattern of
             None \<Rightarrow> Inl Null_pointer_dereference
           | Some p \<Rightarrow>
               (case regexp_match ext p s of
                  None \<Rightarrow> Inr True
                | Some pattern_matches \<Rightarrow> Inr (if pattern_matches then False else True)))
      | _ \<Rightarrow> Inr False)"

definition Json_schema_max_items_validate :: "uint \<Rightarrow> json \<Rightarrow> bool" where
  "Json_schema_max_items_validate max_items je =
     (case je of
        JArray es \<Rightarrow> (let count = (word_of_nat (length es) :: uint)
                      in if count > max_items then True else False)
      | _ \<Rightarrow> False)"

definition Json_schema_min_items_validate :: "uint \<Rightarrow> json \<Rightarrow> bool" where
  "Json_schema_min_items_validate min_items je =
     (case je of
        JArray es \<Rightarrow> (let count = (word_of_nat (length es) :: uint)
                      in if count < min_items then True else False)
      | _ \<Rightarrow> False)"

text \<open>
  \<^verbatim>\<open>Json_schema_unique_items::validate\<close>. The flag word \<^verbatim>\<open>has_none\<close> and the masks are
  declared inside the body of the scan loop, so every element starts from
  \<^verbatim>\<open>has_none= 0\<close>; the set \<^verbatim>\<open>unique_items\<close> lives outside the loop and is the state of the
  recursion. The loop leaves through \<^verbatim>\<open>goto end\<close> with \<^verbatim>\<open>res= true\<close>.
\<close>

fun unique_items_scan :: "externals \<Rightarrow> string list \<Rightarrow> json list \<Rightarrow> bool" where
  "unique_items_scan ext unique_items [] = False"
| "unique_items_scan ext unique_items (curr_je # rest) =
     (let has_none = (0::uint); has_true = (2::uint); has_false = (4::uint);
          has_null = (8::uint)
      in case json_get_normalized_string ext curr_je of
           None \<Rightarrow> True
         | Some norm_str \<Rightarrow>
             if value_type curr_je = JSON_VALUE_TRUE then
               (if has_none AND has_true \<noteq> 0 then True
                else unique_items_scan ext unique_items rest)
             else if value_type curr_je = JSON_VALUE_FALSE then
               (if has_none AND has_false \<noteq> 0 then True
                else unique_items_scan ext unique_items rest)
             else if value_type curr_je = JSON_VALUE_NULL then
               (if has_none AND has_null \<noteq> 0 then True
                else unique_items_scan ext unique_items rest)
             else
               (if norm_str \<notin> set unique_items
                then unique_items_scan ext (norm_str # unique_items) rest
                else True))"

definition Json_schema_unique_items_validate :: "externals \<Rightarrow> json \<Rightarrow> bool" where
  "Json_schema_unique_items_validate ext je =
     (case je of JArray es \<Rightarrow> unique_items_scan ext [] es | _ \<Rightarrow> False)"

text \<open>
  The two property counters test \<^verbatim>\<open>je->stack_p >= curr_level\<close> on the cursor they were
  given, which does not move, and not on the copy that scans. Their loop therefore does
  not end with the object: it runs to the end of the text, and \<^verbatim>\<open>properties_count\<close>
  takes in the keys that the scanner meets after the object. What follows the value is
  not part of the cursor of the model, so on an object the outcome is left to the
  scanner (\<open>Cursor_dependent\<close>); the test of the kind comes first and is modelled.
\<close>

definition Json_schema_max_prop_validate :: "uint \<Rightarrow> json \<Rightarrow> fault + bool" where
  "Json_schema_max_prop_validate max_prop je =
     (case je of
        JObject ms \<Rightarrow> Inl Cursor_dependent
      | _ \<Rightarrow> Inr False)"

definition Json_schema_min_prop_validate :: "uint \<Rightarrow> json \<Rightarrow> fault + bool" where
  "Json_schema_min_prop_validate min_prop je =
     (case je of
        JObject ms \<Rightarrow> Inl Cursor_dependent
      | _ \<Rightarrow> Inr False)"

text \<open>
  The scan loops of \<^verbatim>\<open>required\<close> and \<^verbatim>\<open>dependentRequired\<close> read the key names and
  neither read nor skip the values, so on a member whose value is an object or an
  array the scanner goes on inside that value: the outcome is then left to the
  scanner (\<open>Cursor_dependent\<close>).
\<close>

definition json_value_scalar :: "json \<Rightarrow> bool" where
  "json_value_scalar je =
     (value_type je \<noteq> JSON_VALUE_OBJECT \<and> value_type je \<noteq> JSON_VALUE_ARRAY)"

definition scalar_members :: "(string \<times> json) list \<Rightarrow> bool" where
  "scalar_members ms = list_all (\<lambda>m. json_value_scalar (snd m)) ms"

definition Json_schema_required_validate :: "string list \<Rightarrow> json \<Rightarrow> fault + bool" where
  "Json_schema_required_validate required_properties je =
     (case je of
        JObject ms \<Rightarrow>
          (if \<not> scalar_members ms then Inl Cursor_dependent
           else (let required = map fst ms
                 in if list_all (\<lambda>curr_str. curr_str \<in> set required) required_properties
                    then Inr False else Inr True))
      | _ \<Rightarrow> Inr False)"

definition Json_schema_dependent_prop_validate ::
  "(string \<times> string list) list \<Rightarrow> json \<Rightarrow> fault + bool" where
  "Json_schema_dependent_prop_validate dependent_required je =
     (case je of
        JObject ms \<Rightarrow>
          (if \<not> scalar_members ms then Inl Cursor_dependent
           else (let properties = map fst ms
                 in if list_all
                         (\<lambda>curr_keyword.
                            if fst curr_keyword \<in> set properties
                            then list_all (\<lambda>curr_depended_keyword.
                                             curr_depended_keyword \<in> set properties)
                                          (snd curr_keyword)
                            else True)
                         dependent_required
                    then Inr False else Inr True))
      | _ \<Rightarrow> Inr False)"

section \<open>Keyword nodes and the store\<close>

text \<open>
  A compiled schema is a graph of \<^verbatim>\<open>Json_schema_keyword\<close> objects that point at each
  other (\<^verbatim>\<open>alternate_schema\<close>, \<^verbatim>\<open>min_contains\<close>, ...) and that \<^verbatim>\<open>validate\<close> writes to.
  The objects live in a store, a pointer is an index into it, \<^verbatim>\<open>NULL\<close> is \<open>None\<close>,
  and a \<^verbatim>\<open>List<Json_schema_keyword>\<close> is a list of pointers. The fields of the base class
  are the fields of the record; the members a subclass adds are the arguments of its
  constructor in \<open>variant\<close>. \<^verbatim>\<open>Json_schema_logic\<close> declares \<^verbatim>\<open>unevaluated_items\<close> and
  \<^verbatim>\<open>unevaluated_properties\<close> again, hiding the two of the base class: they are the
  first two arguments of the combinators.
\<close>

type_synonym addr = nat

datatype logic_class = Class_one_of | Class_any_of | Class_all_of

datatype conditional_class = Class_if | Class_then | Class_else

datatype variant =
    Json_schema_keyword_base
  | Json_schema_additional_items "addr list"
  | Json_schema_unevaluated_items "addr list"
  | Json_schema_additional_properties "addr list"
  | Json_schema_unevaluated_properties "addr list"
  | Json_schema_annotation
  | Json_schema_format
  | Json_schema_type uint
  | Json_schema_const "string option" json_value_types
  | Json_schema_enum "string list" uint
  | Json_schema_maximum real
  | Json_schema_minimum real
  | Json_schema_multiple_of real
  | Json_schema_ex_maximum real
  | Json_schema_ex_minimum real
  | Json_schema_max_len uint
  | Json_schema_min_len uint
  | Json_schema_pattern "string option"
  | Json_schema_max_items uint
  | Json_schema_min_items uint
  | Json_schema_max_contains
  | Json_schema_min_contains
  | Json_schema_contains "addr list" "addr option" "addr option"
  | Json_schema_unique_items bool
  | Json_schema_prefix_items "addr list list"
  | Json_schema_items "addr option" "addr list"
  | Json_schema_property_names "addr list"
  | Json_schema_properties "(string \<times> addr list) list"
  | Json_schema_pattern_properties "(string \<times> addr list) list"
  | Json_schema_max_prop uint
  | Json_schema_min_prop uint
  | Json_schema_required "string list"
  | Json_schema_dependent_prop "(string \<times> string list) list"
  | Json_schema_not "addr option" "addr option" "addr list"
  | Json_schema_logic logic_class "addr option" "addr option" "addr list list"
  | Json_schema_conditional conditional_class "addr list" "addr option" "addr option" "addr option"

record Json_schema_keyword =
  alternate_schema :: "addr option"
  unevaluated_properties :: "addr option"
  unevaluated_items :: "addr option"
  keyword_name :: string
  value' :: uint
  priority :: uint
  allowed :: bool
  index :: uint
  variant :: variant

type_synonym store = "Json_schema_keyword list"

text \<open>
  A method runs on the store and gives back the store it leaves, with the value it
  returns or the fault it ran into. \<open>None\<close> is kept for a run that did not finish
  within the number of nested virtual calls it was allowed.
\<close>

type_synonym 'a run = "store \<Rightarrow> ((fault + 'a) \<times> store) option"

definition run_return :: "'a \<Rightarrow> 's \<Rightarrow> ((fault + 'a) \<times> 's) option" where
  "run_return x = (\<lambda>h. Some (Inr x, h))"

definition run_fault :: "fault \<Rightarrow> 's \<Rightarrow> ((fault + 'a) \<times> 's) option" where
  "run_fault f = (\<lambda>h. Some (Inl f, h))"

definition run_bind ::
  "('s \<Rightarrow> ((fault + 'a) \<times> 's) option) \<Rightarrow> ('a \<Rightarrow> 's \<Rightarrow> ((fault + 'b) \<times> 's) option) \<Rightarrow>
   's \<Rightarrow> ((fault + 'b) \<times> 's) option" where
  "run_bind m f =
     (\<lambda>h. case m h of
             None \<Rightarrow> None
           | Some (Inl e, h') \<Rightarrow> Some (Inl e, h')
           | Some (Inr x, h') \<Rightarrow> f x h')"

definition run_pure :: "fault + 'a \<Rightarrow> 's \<Rightarrow> ((fault + 'a) \<times> 's) option" where
  "run_pure r = (\<lambda>h. Some (r, h))"

definition get_keyword :: "addr \<Rightarrow> Json_schema_keyword run" where
  "get_keyword a =
     (\<lambda>h. if a < length h then Some (Inr (h ! a), h) else Some (Inl Invalid_pointer, h))"

definition update_keyword ::
  "addr \<Rightarrow> (Json_schema_keyword \<Rightarrow> Json_schema_keyword) \<Rightarrow> unit run" where
  "update_keyword a f =
     (\<lambda>h. if a < length h then Some (Inr (), h[a := f (h ! a)])
          else Some (Inl Invalid_pointer, h))"

definition set_alternate_schema :: "addr \<Rightarrow> addr option \<Rightarrow> unit run" where
  "set_alternate_schema this schema =
     update_keyword this (\<lambda>k. k\<lparr>alternate_schema := schema\<rparr>)"

text \<open>\<^verbatim>\<open>List::elem(n)\<close> gives the null pointer when the list has no such element.\<close>

definition elem :: "'a list \<Rightarrow> nat \<Rightarrow> 'a option" where
  "elem xs n = (if n < length xs then Some (xs ! n) else None)"

section \<open>Virtual calls\<close>

text \<open>
  \<^verbatim>\<open>validate\<close> and \<^verbatim>\<open>validate_as_alternate\<close> are virtual. Each method of the source is a
  definition that takes the virtual call as its first argument \<open>vcall\<close>; the methods are
  tied together at the end of this section. The key name \<^verbatim>\<open>k_start .. k_end\<close> is a
  string, empty for the default null pointers (a length of zero in every use). The
  parameter \<^verbatim>\<open>validate_whole\<close> is read nowhere and is left out.
\<close>

datatype virtual_method = Validate | Validate_as_alternate

type_synonym virtual_call = "virtual_method \<Rightarrow> addr \<Rightarrow> json \<Rightarrow> string \<Rightarrow> bool run"

definition fall_back_on_alternate_schema ::
  "virtual_call \<Rightarrow> addr \<Rightarrow> json \<Rightarrow> string \<Rightarrow> bool run" where
  "fall_back_on_alternate_schema vcall this je key =
     run_bind (get_keyword this) (\<lambda>k.
       case alternate_schema k of
         Some alt \<Rightarrow>
           run_bind (get_keyword alt) (\<lambda>a.
             if allowed a then
               run_bind (vcall Validate_as_alternate alt je key) (\<lambda>r.
                 if r then run_return True else run_return False)
             else run_return True)
       | None \<Rightarrow> run_return False)"

text \<open>
  The loop \<^verbatim>\<open>while ((curr_keyword= it++)) if (curr_keyword->validate(je)) return true;\<close>
  over a keyword list; \<open>False\<close> when the list is exhausted.
\<close>

fun validate_each :: "virtual_call \<Rightarrow> json \<Rightarrow> string \<Rightarrow> addr list \<Rightarrow> bool run" where
  "validate_each vcall je key [] = run_return False"
| "validate_each vcall je key (curr_keyword # rest) =
     run_bind (vcall Validate curr_keyword je key) (\<lambda>r.
       if r then run_return True else validate_each vcall je key rest)"

subsection \<open>Array applicators\<close>

fun validate_single_index_loop ::
  "virtual_call \<Rightarrow> addr \<Rightarrow> json \<Rightarrow> addr list \<Rightarrow> bool run" where
  "validate_single_index_loop vcall this curr_je [] = run_return False"
| "validate_single_index_loop vcall this curr_je (curr_keyword # rest) =
     run_bind (vcall Validate curr_keyword curr_je []) (\<lambda>r.
       if r then
         run_bind (get_keyword this) (\<lambda>k.
           if alternate_schema k \<noteq> None then
             run_bind (fall_back_on_alternate_schema vcall this curr_je []) (\<lambda>fb.
               if fb then run_return True
               else validate_single_index_loop vcall this curr_je rest)
           else run_return True)
       else validate_single_index_loop vcall this curr_je rest)"

definition validate_single_index ::
  "virtual_call \<Rightarrow> addr \<Rightarrow> json \<Rightarrow> addr list option \<Rightarrow> bool run" where
  "validate_single_index vcall this curr_je curr_schema =
     (case curr_schema of
        None \<Rightarrow>
          run_bind (fall_back_on_alternate_schema vcall this curr_je []) (\<lambda>fb.
            if fb then run_return True else run_return False)
      | Some ks \<Rightarrow> validate_single_index_loop vcall this curr_je ks)"

definition Json_schema_items_validate_as_alternate ::
  "virtual_call \<Rightarrow> addr \<Rightarrow> addr option \<Rightarrow> addr list \<Rightarrow> json \<Rightarrow> bool run" where
  "Json_schema_items_validate_as_alternate vcall this validate_like_prefix
       validate_like_schema je =
     (case validate_like_prefix of
        Some p \<Rightarrow>
          run_bind (get_keyword this) (\<lambda>k.
          run_bind (get_keyword p) (\<lambda>curr_prefix_list.
            case variant curr_prefix_list of
              Json_schema_prefix_items prefix_items \<Rightarrow>
                if index k > word_of_nat (length prefix_items) then run_return True
                else
                  run_bind (validate_single_index vcall this je
                              (elem prefix_items (unat (index k)))) (\<lambda>r.
                    if r then run_return True else run_return False)
            | _ \<Rightarrow> run_fault Invalid_pointer))
      | None \<Rightarrow>
          if validate_like_schema \<noteq> [] then
            run_bind (validate_single_index vcall this je (Some validate_like_schema)) (\<lambda>r.
              if r then run_return True else run_return False)
          else
            run_bind (get_keyword this) (\<lambda>k. run_return (\<not> allowed k)))"

fun items_scan :: "virtual_call \<Rightarrow> addr \<Rightarrow> addr list \<Rightarrow> json list \<Rightarrow> bool run" where
  "items_scan vcall this validate_like_schema [] = run_return False"
| "items_scan vcall this validate_like_schema (curr_je # rest) =
     run_bind (validate_single_index vcall this curr_je (Some validate_like_schema)) (\<lambda>r.
       if r then run_return True else items_scan vcall this validate_like_schema rest)"

definition Json_schema_items_validate ::
  "virtual_call \<Rightarrow> addr \<Rightarrow> addr option \<Rightarrow> addr list \<Rightarrow> json \<Rightarrow> bool run" where
  "Json_schema_items_validate vcall this validate_like_prefix validate_like_schema je =
     (case je of
        JArray es \<Rightarrow>
          (case validate_like_prefix of
             Some p \<Rightarrow>
               run_bind (get_keyword this) (\<lambda>k.
               run_bind (set_alternate_schema p (alternate_schema k)) (\<lambda>_.
               run_bind (vcall Validate p je []) (\<lambda>r.
                 if r then run_return True else run_return False)))
           | None \<Rightarrow>
               if validate_like_schema \<noteq> [] then items_scan vcall this validate_like_schema es
               else run_bind (get_keyword this) (\<lambda>k. run_return (\<not> allowed k)))
      | _ \<Rightarrow> run_return False)"

text \<open>\<^verbatim>\<open>if (alternate_schema) alternate_schema->index++;\<close>\<close>

definition bump_alternate_index :: "addr \<Rightarrow> unit run" where
  "bump_alternate_index this =
     run_bind (get_keyword this) (\<lambda>k.
       case alternate_schema k of
         Some alt \<Rightarrow> update_keyword alt (\<lambda>a. a\<lparr>index := index a + 1\<rparr>)
       | None \<Rightarrow> run_return ())"

fun prefix_items_scan ::
  "virtual_call \<Rightarrow> addr \<Rightarrow> addr list list \<Rightarrow> json list \<Rightarrow> bool run" where
  "prefix_items_scan vcall this it1 [] = run_return False"
| "prefix_items_scan vcall this it1 (curr_je # rest) =
     (case it1 of
        [] \<Rightarrow>
          run_bind (fall_back_on_alternate_schema vcall this curr_je []) (\<lambda>fb.
            if fb then run_return True
            else run_bind (bump_alternate_index this) (\<lambda>_.
                   prefix_items_scan vcall this [] rest))
      | curr_prefix # it1' \<Rightarrow>
          run_bind (bump_alternate_index this) (\<lambda>_.
          run_bind (validate_each vcall curr_je [] curr_prefix) (\<lambda>r.
            if r then run_return True
            else prefix_items_scan vcall this it1' rest)))"

definition Json_schema_prefix_items_validate ::
  "virtual_call \<Rightarrow> addr \<Rightarrow> addr list list \<Rightarrow> json \<Rightarrow> bool run" where
  "Json_schema_prefix_items_validate vcall this prefix_items je =
     (case je of
        JArray es \<Rightarrow> prefix_items_scan vcall this prefix_items es
      | _ \<Rightarrow> run_return False)"

text \<open>
  \<^verbatim>\<open>Json_schema_contains::validate\<close>. The iterator \<^verbatim>\<open>it\<close> runs over the keyword list
  \<^verbatim>\<open>contains\<close>, and every keyword of it is given \<^verbatim>\<open>&curr_je\<close>, the copy of the cursor
  that stands on the array: the loop does not scan the elements.
\<close>

fun contains_count_loop :: "virtual_call \<Rightarrow> json \<Rightarrow> addr list \<Rightarrow> uint \<Rightarrow> uint run" where
  "contains_count_loop vcall curr_je [] contains_count = run_return contains_count"
| "contains_count_loop vcall curr_je (curr_schema # rest) contains_count =
     run_bind (vcall Validate curr_schema curr_je []) (\<lambda>r.
       contains_count_loop vcall curr_je rest
         (if \<not> r then contains_count + 1 else contains_count))"

definition Json_schema_contains_validate ::
  "virtual_call \<Rightarrow> addr list \<Rightarrow> addr option \<Rightarrow> addr option \<Rightarrow> json \<Rightarrow> bool run" where
  "Json_schema_contains_validate vcall contains max_contains min_contains je =
     (case je of
        JArray es \<Rightarrow>
          run_bind (contains_count_loop vcall je contains 0) (\<lambda>contains_count.
          run_bind (case max_contains of
                      Some mx \<Rightarrow> run_bind (get_keyword mx) (\<lambda>m.
                                   run_return (contains_count \<le> value' m))
                    | None \<Rightarrow> run_return (contains_count > 0)) (\<lambda>upper.
          run_bind (case min_contains of
                      Some mn \<Rightarrow> run_bind (get_keyword mn) (\<lambda>m.
                                   run_return (contains_count \<ge> value' m))
                    | None \<Rightarrow> run_return (contains_count > 0)) (\<lambda>lower.
            if upper \<and> lower then run_return False else run_return True)))
      | _ \<Rightarrow> run_return False)"

subsection \<open>Object applicators\<close>

text \<open>
  \<^verbatim>\<open>Json_schema_unevaluated_properties::validate\<close>, \<^verbatim>\<open>Json_schema_property_names::validate\<close>
  and \<^verbatim>\<open>Json_schema_pattern_properties::validate\<close> read each member's value and do not
  skip it, and the first of them does not test that the cursor stands on an object;
  as for \<^verbatim>\<open>required\<close>, the model gives a verdict when the scan stays on the members of
  the object, which is when all their values are scalars.
\<close>

fun members_scan :: "virtual_call \<Rightarrow> addr list \<Rightarrow> (string \<times> json) list \<Rightarrow> bool run" where
  "members_scan vcall schema_list [] = run_return False"
| "members_scan vcall schema_list ((key, curr_je) # rest) =
     run_bind (validate_each vcall curr_je [] schema_list) (\<lambda>r.
       if r then run_return True else members_scan vcall schema_list rest)"

definition Json_schema_unevaluated_properties_validate ::
  "virtual_call \<Rightarrow> addr list \<Rightarrow> json \<Rightarrow> bool run" where
  "Json_schema_unevaluated_properties_validate vcall schema_list je =
     (case je of
        JObject ms \<Rightarrow>
          if scalar_members ms then members_scan vcall schema_list ms
          else run_fault Cursor_dependent
      | _ \<Rightarrow> run_fault Cursor_dependent)"

definition Json_schema_additional_and_unevaluated_validate ::
  "virtual_call \<Rightarrow> addr list \<Rightarrow> json \<Rightarrow> bool run" where
  "Json_schema_additional_and_unevaluated_validate vcall schema_list je =
     validate_each vcall je [] schema_list"

definition Json_schema_additional_and_unevaluated_validate_as_alternate ::
  "virtual_call \<Rightarrow> addr \<Rightarrow> json \<Rightarrow> string \<Rightarrow> bool run" where
  "Json_schema_additional_and_unevaluated_validate_as_alternate vcall this je key =
     vcall Validate this je key"

text \<open>
  The keys of \<^verbatim>\<open>properties\<close> are kept in a hash table; a search is the first entry with
  that name.
\<close>

definition Json_schema_properties_validate_as_alternate ::
  "virtual_call \<Rightarrow> (string \<times> addr list) list \<Rightarrow> json \<Rightarrow> string \<Rightarrow> bool run" where
  "Json_schema_properties_validate_as_alternate vcall properties je key =
     (case map_of properties key of
        Some curr_schema \<Rightarrow>
          run_bind (validate_each vcall je [] curr_schema) (\<lambda>r.
            if r then run_return True else run_return False)
      | None \<Rightarrow> run_return False)"

fun properties_scan ::
  "virtual_call \<Rightarrow> addr \<Rightarrow> (string \<times> addr list) list \<Rightarrow> (string \<times> json) list \<Rightarrow> bool run"
  where
  "properties_scan vcall this properties [] = run_return False"
| "properties_scan vcall this properties ((key, curr_je) # rest) =
     (case map_of properties key of
        Some curr_schema \<Rightarrow>
          run_bind (validate_each vcall curr_je [] curr_schema) (\<lambda>r.
            if r then run_return True else properties_scan vcall this properties rest)
      | None \<Rightarrow>
          run_bind (fall_back_on_alternate_schema vcall this curr_je key) (\<lambda>fb.
            if fb then run_return True else properties_scan vcall this properties rest))"

definition Json_schema_properties_validate ::
  "virtual_call \<Rightarrow> addr \<Rightarrow> (string \<times> addr list) list \<Rightarrow> json \<Rightarrow> bool run" where
  "Json_schema_properties_validate vcall this properties je =
     (case je of
        JObject ms \<Rightarrow> properties_scan vcall this properties ms
      | _ \<Rightarrow> run_return False)"

text \<open>
  \<^verbatim>\<open>Json_schema_pattern_properties::validate_as_alternate\<close> stops at the first pattern
  that matches (\<^verbatim>\<open>break\<close>); \<^verbatim>\<open>validate\<close> tries every pattern, and its \<^verbatim>\<open>match_found\<close> is
  declared before the scan loop and never reset.
\<close>

fun pattern_properties_first_match ::
  "externals \<Rightarrow> virtual_call \<Rightarrow> addr \<Rightarrow> (string \<times> addr list) list \<Rightarrow> json \<Rightarrow> string \<Rightarrow>
   bool run" where
  "pattern_properties_first_match ext vcall this [] curr_je key =
     run_bind (fall_back_on_alternate_schema vcall this curr_je []) (\<lambda>fb.
       if fb then run_return True else run_return False)"
| "pattern_properties_first_match ext vcall this ((pattern, curr_schema) # rest) curr_je key =
     (case regexp_match ext pattern key of
        None \<Rightarrow> run_return True
      | Some m \<Rightarrow>
          if m then
            run_bind (validate_each vcall curr_je [] curr_schema) (\<lambda>r.
              if r then run_return True else run_return False)
          else pattern_properties_first_match ext vcall this rest curr_je key)"

definition Json_schema_pattern_properties_validate_as_alternate ::
  "externals \<Rightarrow> virtual_call \<Rightarrow> addr \<Rightarrow> (string \<times> addr list) list \<Rightarrow> json \<Rightarrow> string \<Rightarrow>
   bool run" where
  "Json_schema_pattern_properties_validate_as_alternate ext vcall this pattern_properties
       curr_je key =
     pattern_properties_first_match ext vcall this pattern_properties curr_je key"

text \<open>The inner loop of \<^verbatim>\<open>validate\<close>: the result is \<open>None\<close> for \<^verbatim>\<open>return true\<close>, otherwise
  the value of \<^verbatim>\<open>match_found\<close> after the patterns.\<close>

fun pattern_properties_all_matches ::
  "externals \<Rightarrow> virtual_call \<Rightarrow> (string \<times> addr list) list \<Rightarrow> json \<Rightarrow> string \<Rightarrow> bool \<Rightarrow>
   bool option run" where
  "pattern_properties_all_matches ext vcall [] curr_je key match_found =
     run_return (Some match_found)"
| "pattern_properties_all_matches ext vcall ((pattern, curr_schema) # rest) curr_je key
       match_found =
     (case regexp_match ext pattern key of
        None \<Rightarrow> run_return None
      | Some m \<Rightarrow>
          if m then
            run_bind (validate_each vcall curr_je [] curr_schema) (\<lambda>r.
              if r then run_return None
              else pattern_properties_all_matches ext vcall rest curr_je key True)
          else pattern_properties_all_matches ext vcall rest curr_je key match_found)"

fun pattern_properties_scan ::
  "externals \<Rightarrow> virtual_call \<Rightarrow> addr \<Rightarrow> (string \<times> addr list) list \<Rightarrow>
   (string \<times> json) list \<Rightarrow> bool \<Rightarrow> bool run" where
  "pattern_properties_scan ext vcall this pattern_properties [] match_found =
     run_return False"
| "pattern_properties_scan ext vcall this pattern_properties ((key, curr_je) # rest)
       match_found =
     run_bind (pattern_properties_all_matches ext vcall pattern_properties curr_je key
                 match_found) (\<lambda>res.
       case res of
         None \<Rightarrow> run_return True
       | Some match_found' \<Rightarrow>
           if \<not> match_found' then
             run_bind (Json_schema_pattern_properties_validate_as_alternate ext vcall this
                         pattern_properties curr_je key) (\<lambda>r.
               if r then run_return True
               else pattern_properties_scan ext vcall this pattern_properties rest
                      match_found')
           else pattern_properties_scan ext vcall this pattern_properties rest match_found')"

definition Json_schema_pattern_properties_validate ::
  "externals \<Rightarrow> virtual_call \<Rightarrow> addr \<Rightarrow> (string \<times> addr list) list \<Rightarrow> json \<Rightarrow> bool run"
  where
  "Json_schema_pattern_properties_validate ext vcall this pattern_properties je =
     (case je of
        JObject ms \<Rightarrow>
          if scalar_members ms
          then pattern_properties_scan ext vcall this pattern_properties ms False
          else run_fault Cursor_dependent
      | _ \<Rightarrow> run_return False)"

text \<open>
  \<^verbatim>\<open>Json_schema_property_names::validate\<close> takes \<^verbatim>\<open>k_start\<close> and \<^verbatim>\<open>k_end\<close> from \<^verbatim>\<open>je\<close>, which
  does not move, so the key it hands on is empty; the keywords are given the cursor
  on the member's value.
\<close>

definition Json_schema_property_names_validate ::
  "virtual_call \<Rightarrow> addr list \<Rightarrow> json \<Rightarrow> bool run" where
  "Json_schema_property_names_validate vcall property_names je =
     (case je of
        JObject ms \<Rightarrow>
          if scalar_members ms then members_scan vcall property_names ms
          else run_fault Cursor_dependent
      | _ \<Rightarrow> run_return False)"

subsection \<open>Combinators\<close>

text \<open>
  Both \<^verbatim>\<open>Json_schema_logic::validate\<close> and \<^verbatim>\<open>Json_schema_not::validate\<close> start by setting
  their own \<^verbatim>\<open>alternate_schema\<close> from the fields \<^verbatim>\<open>unevaluated_items\<close> or
  \<^verbatim>\<open>unevaluated_properties\<close> that \<^verbatim>\<open>Json_schema_logic\<close> declares.
\<close>

definition inherit_alternate :: "addr \<Rightarrow> addr option \<Rightarrow> addr option \<Rightarrow> json \<Rightarrow> unit run" where
  "inherit_alternate this unevaluated_items' unevaluated_properties' je =
     (if value_type je = JSON_VALUE_ARRAY then set_alternate_schema this unevaluated_items'
      else if value_type je = JSON_VALUE_OBJECT
        then set_alternate_schema this unevaluated_properties'
      else run_return ())"

definition validate_count :: "logic_class \<Rightarrow> uint \<Rightarrow> uint \<Rightarrow> bool" where
  "validate_count cls count total' =
     (case cls of
        Class_one_of \<Rightarrow> \<not> (count = 1)
      | Class_any_of \<Rightarrow> count = 0
      | Class_all_of \<Rightarrow> count \<noteq> total')"

definition Json_schema_not_validate_count :: "uint \<Rightarrow> uint \<Rightarrow> bool" where
  "Json_schema_not_validate_count count total' = (count \<noteq> 0)"

text \<open>
  The inner loop of \<^verbatim>\<open>Json_schema_logic::validate\<close> over the keywords of one sub-schema.
  \<^verbatim>\<open>has_alternate\<close> is cleared once per sub-schema, before this loop, and is an argument
  here; \<^verbatim>\<open>break\<close> leaves the loop before the assignment that follows \<^verbatim>\<open>validate\<close>. The
  result is the value of \<^verbatim>\<open>validated\<close>.
\<close>

fun logic_keywords_loop ::
  "virtual_call \<Rightarrow> addr \<Rightarrow> json \<Rightarrow> bool \<Rightarrow> addr list \<Rightarrow> bool run" where
  "logic_keywords_loop vcall this curr_je has_alternate [] = run_return True"
| "logic_keywords_loop vcall this curr_je has_alternate (curr_keyword # rest) =
     run_bind (get_keyword curr_keyword) (\<lambda>ck.
     run_bind (get_keyword this) (\<lambda>k.
     run_bind (if alternate_schema ck = None
               then set_alternate_schema curr_keyword (alternate_schema k)
               else run_return ()) (\<lambda>_.
     run_bind (vcall Validate curr_keyword curr_je []) (\<lambda>r.
       if r then run_return False
       else
         run_bind (if has_alternate \<or> alternate_schema ck = None
                   then set_alternate_schema curr_keyword None
                   else run_return ()) (\<lambda>_.
           logic_keywords_loop vcall this curr_je
             (has_alternate \<or> alternate_schema ck = None) rest)))))"

fun logic_schemas_loop ::
  "virtual_call \<Rightarrow> addr \<Rightarrow> json \<Rightarrow> addr list list \<Rightarrow> uint \<Rightarrow> uint run" where
  "logic_schemas_loop vcall this curr_je [] count_validations = run_return count_validations"
| "logic_schemas_loop vcall this curr_je (curr_schema # rest) count_validations =
     run_bind (logic_keywords_loop vcall this curr_je False curr_schema) (\<lambda>validated.
       if validated then logic_schemas_loop vcall this curr_je rest (count_validations + 1)
       else
         run_bind (get_keyword this) (\<lambda>k.
           if alternate_schema k \<noteq> None then
             run_bind (fall_back_on_alternate_schema vcall this curr_je []) (\<lambda>fb.
               logic_schemas_loop vcall this curr_je rest
                 (if \<not> fb then count_validations + 1 else count_validations))
           else logic_schemas_loop vcall this curr_je rest count_validations))"

definition Json_schema_logic_validate ::
  "virtual_call \<Rightarrow> addr \<Rightarrow> logic_class \<Rightarrow> addr option \<Rightarrow> addr option \<Rightarrow> addr list list \<Rightarrow>
   json \<Rightarrow> bool run" where
  "Json_schema_logic_validate vcall this cls unevaluated_items' unevaluated_properties'
       schema_items je =
     run_bind (inherit_alternate this unevaluated_items' unevaluated_properties' je) (\<lambda>_.
     run_bind (logic_schemas_loop vcall this je schema_items 0) (\<lambda>count_validations.
       if validate_count cls count_validations (word_of_nat (length schema_items))
       then run_return True else run_return False))"

text \<open>
  The loop of \<^verbatim>\<open>Json_schema_not::validate\<close> over the keywords of its sub-schema: a
  keyword that has an \<^verbatim>\<open>alternate_schema\<close> is given the combinator's one before it
  validates, and the null pointer after; \<^verbatim>\<open>count_validations\<close> counts the keywords
  whose \<^verbatim>\<open>validate\<close> returns \<^verbatim>\<open>false\<close>.
\<close>

fun not_keywords_loop :: "virtual_call \<Rightarrow> addr \<Rightarrow> json \<Rightarrow> addr list \<Rightarrow> uint \<Rightarrow> uint run" where
  "not_keywords_loop vcall this je [] count_validations = run_return count_validations"
| "not_keywords_loop vcall this je (curr_keyword # rest) count_validations =
     run_bind (get_keyword curr_keyword) (\<lambda>ck.
     run_bind (get_keyword this) (\<lambda>k.
     run_bind (if alternate_schema ck \<noteq> None
               then set_alternate_schema curr_keyword (alternate_schema k)
               else run_return ()) (\<lambda>_.
     run_bind (vcall Validate curr_keyword je []) (\<lambda>r.
     run_bind (if alternate_schema ck \<noteq> None
               then set_alternate_schema curr_keyword None
               else run_return ()) (\<lambda>_.
       not_keywords_loop vcall this je rest
         (if \<not> r then count_validations + 1 else count_validations))))))"

definition Json_schema_not_validate ::
  "virtual_call \<Rightarrow> addr \<Rightarrow> addr option \<Rightarrow> addr option \<Rightarrow> addr list \<Rightarrow> json \<Rightarrow> bool run"
  where
  "Json_schema_not_validate vcall this unevaluated_items' unevaluated_properties'
       schema_list je =
     run_bind (inherit_alternate this unevaluated_items' unevaluated_properties' je) (\<lambda>_.
     run_bind (not_keywords_loop vcall this je schema_list 0) (\<lambda>count_validations.
       if Json_schema_not_validate_count count_validations
            (word_of_nat (length schema_list))
       then run_return True else run_return False))"

subsection \<open>Conditional\<close>

text \<open>
  \<^verbatim>\<open>Json_schema_conditional::validate\<close> calls \<^verbatim>\<open>if_cond->validate\<close> with no test of
  \<^verbatim>\<open>if_cond\<close>, and an absent branch is \<^verbatim>\<open>return true\<close>.
\<close>

definition Json_schema_conditional_validate ::
  "virtual_call \<Rightarrow> addr option \<Rightarrow> addr option \<Rightarrow> addr option \<Rightarrow> json \<Rightarrow> string \<Rightarrow> bool run"
  where
  "Json_schema_conditional_validate vcall if_cond then_cond else_cond je key =
     (case if_cond of
        None \<Rightarrow> run_fault Null_pointer_dereference
      | Some i \<Rightarrow>
          run_bind (vcall Validate i je key) (\<lambda>r.
            if \<not> r then
              (case then_cond of
                 Some t \<Rightarrow>
                   run_bind (vcall Validate t je key) (\<lambda>r'.
                     if r' then run_return True else run_return False)
               | None \<Rightarrow> run_return True)
            else
              (case else_cond of
                 Some e \<Rightarrow>
                   run_bind (vcall Validate e je key) (\<lambda>r'.
                     if r' then run_return True else run_return False)
               | None \<Rightarrow> run_return True)))"

subsection \<open>Dispatch\<close>

definition virtual_validate ::
  "externals \<Rightarrow> virtual_call \<Rightarrow> addr \<Rightarrow> json \<Rightarrow> string \<Rightarrow> bool run" where
  "virtual_validate ext vcall this je key =
     run_bind (get_keyword this) (\<lambda>k.
       case variant k of
         Json_schema_keyword_base \<Rightarrow> run_return False
       | Json_schema_additional_items schema_list \<Rightarrow>
           Json_schema_additional_and_unevaluated_validate vcall schema_list je
       | Json_schema_unevaluated_items schema_list \<Rightarrow>
           Json_schema_additional_and_unevaluated_validate vcall schema_list je
       | Json_schema_additional_properties schema_list \<Rightarrow>
           Json_schema_additional_and_unevaluated_validate vcall schema_list je
       | Json_schema_unevaluated_properties schema_list \<Rightarrow>
           Json_schema_unevaluated_properties_validate vcall schema_list je
       | Json_schema_annotation \<Rightarrow> run_return (Json_schema_annotation_validate je)
       | Json_schema_format \<Rightarrow> run_return (Json_schema_format_validate je)
       | Json_schema_type type \<Rightarrow> run_return (Json_schema_type_validate ext type je)
       | Json_schema_const const_json_value type \<Rightarrow>
           run_pure (Json_schema_const_validate ext const_json_value type je)
       | Json_schema_enum enum_values enum_scalar \<Rightarrow>
           run_return (Json_schema_enum_validate ext enum_values enum_scalar je)
       | Json_schema_maximum maximum \<Rightarrow> run_return (Json_schema_maximum_validate maximum je)
       | Json_schema_minimum minimum \<Rightarrow> run_return (Json_schema_minimum_validate minimum je)
       | Json_schema_multiple_of multiple_of \<Rightarrow>
           run_pure (Json_schema_multiple_of_validate multiple_of je)
       | Json_schema_ex_maximum ex_max \<Rightarrow>
           run_return (Json_schema_ex_maximum_validate ex_max je)
       | Json_schema_ex_minimum ex_min \<Rightarrow>
           run_return (Json_schema_ex_minimum_validate ex_min je)
       | Json_schema_max_len max_len \<Rightarrow> run_return (Json_schema_max_len_validate max_len je)
       | Json_schema_min_len min_len \<Rightarrow> run_return (Json_schema_min_len_validate min_len je)
       | Json_schema_pattern pattern \<Rightarrow>
           run_pure (Json_schema_pattern_validate ext pattern je)
       | Json_schema_max_items max_items \<Rightarrow>
           run_return (Json_schema_max_items_validate max_items je)
       | Json_schema_min_items min_items \<Rightarrow>
           run_return (Json_schema_min_items_validate min_items je)
       | Json_schema_max_contains \<Rightarrow> run_return False
       | Json_schema_min_contains \<Rightarrow> run_return False
       | Json_schema_contains contains max_contains min_contains \<Rightarrow>
           Json_schema_contains_validate vcall contains max_contains min_contains je
       | Json_schema_unique_items is_unique \<Rightarrow>
           run_return (Json_schema_unique_items_validate ext je)
       | Json_schema_prefix_items prefix_items \<Rightarrow>
           Json_schema_prefix_items_validate vcall this prefix_items je
       | Json_schema_items validate_like_prefix validate_like_schema \<Rightarrow>
           Json_schema_items_validate vcall this validate_like_prefix validate_like_schema je
       | Json_schema_property_names property_names \<Rightarrow>
           Json_schema_property_names_validate vcall property_names je
       | Json_schema_properties properties \<Rightarrow>
           Json_schema_properties_validate vcall this properties je
       | Json_schema_pattern_properties pattern_properties \<Rightarrow>
           Json_schema_pattern_properties_validate ext vcall this pattern_properties je
       | Json_schema_max_prop max_prop \<Rightarrow>
           run_pure (Json_schema_max_prop_validate max_prop je)
       | Json_schema_min_prop min_prop \<Rightarrow>
           run_pure (Json_schema_min_prop_validate min_prop je)
       | Json_schema_required required_properties \<Rightarrow>
           run_pure (Json_schema_required_validate required_properties je)
       | Json_schema_dependent_prop dependent_required \<Rightarrow>
           run_pure (Json_schema_dependent_prop_validate dependent_required je)
       | Json_schema_not unevaluated_items' unevaluated_properties' schema_list \<Rightarrow>
           Json_schema_not_validate vcall this unevaluated_items' unevaluated_properties'
             schema_list je
       | Json_schema_logic cls unevaluated_items' unevaluated_properties' schema_items \<Rightarrow>
           Json_schema_logic_validate vcall this cls unevaluated_items'
             unevaluated_properties' schema_items je
       | Json_schema_conditional cls conditions_schema if_cond then_cond else_cond \<Rightarrow>
           Json_schema_conditional_validate vcall if_cond then_cond else_cond je key)"

definition virtual_validate_as_alternate ::
  "externals \<Rightarrow> virtual_call \<Rightarrow> addr \<Rightarrow> json \<Rightarrow> string \<Rightarrow> bool run" where
  "virtual_validate_as_alternate ext vcall this je key =
     run_bind (get_keyword this) (\<lambda>k.
       case variant k of
         Json_schema_additional_items schema_list \<Rightarrow>
           Json_schema_additional_and_unevaluated_validate_as_alternate vcall this je key
       | Json_schema_unevaluated_items schema_list \<Rightarrow>
           Json_schema_additional_and_unevaluated_validate_as_alternate vcall this je key
       | Json_schema_additional_properties schema_list \<Rightarrow>
           Json_schema_additional_and_unevaluated_validate_as_alternate vcall this je key
       | Json_schema_unevaluated_properties schema_list \<Rightarrow>
           Json_schema_additional_and_unevaluated_validate_as_alternate vcall this je key
       | Json_schema_items validate_like_prefix validate_like_schema \<Rightarrow>
           Json_schema_items_validate_as_alternate vcall this validate_like_prefix
             validate_like_schema je
       | Json_schema_properties properties \<Rightarrow>
           Json_schema_properties_validate_as_alternate vcall properties je key
       | Json_schema_pattern_properties pattern_properties \<Rightarrow>
           Json_schema_pattern_properties_validate_as_alternate ext vcall this
             pattern_properties je key
       | _ \<Rightarrow> run_return False)"

text \<open>
  The recursion of the virtual calls, on the number of calls that may still nest.
\<close>

primrec call :: "externals \<Rightarrow> nat \<Rightarrow> virtual_call" where
  "call ext 0 = (\<lambda>m this je key h. None)"
| "call ext (Suc n) =
     (\<lambda>m this je key.
        case m of
          Validate \<Rightarrow> virtual_validate ext (call ext n) this je key
        | Validate_as_alternate \<Rightarrow> virtual_validate_as_alternate ext (call ext n) this je key)"

text \<open>
  Modelled from the spec: the caller that applies a compiled schema to an instance is
  not among the sources. By section 4.3 of the specification it asks each keyword of
  the list in order and stops at the first that fails, which is the loop
  \<open>validate_each\<close> on the keyword list of the top object.
\<close>

definition validate_schema :: "externals \<Rightarrow> nat \<Rightarrow> addr list \<Rightarrow> json \<Rightarrow> bool run" where
  "validate_schema ext n keyword_list je = validate_each (call ext n) je [] keyword_list"

section \<open>Compiling a schema\<close>

text \<open>
  The compiler allocates keyword objects, reports through \<^verbatim>\<open>my_error\<close> and appends
  every keyword it creates to \<^verbatim>\<open>all_keywords\<close>. Its state is the store, the list of
  the keyword names given to
  \<^verbatim>\<open>my_error(ER_JSON_INVALID_VALUE_FOR_KEYWORD, MYF(0), name)\<close> so far, and
  \<^verbatim>\<open>all_keywords\<close>. The test \<^verbatim>\<open>check_stack_overrun\<close> is not modelled.
\<close>

record compile_state =
  heap :: store
  diagnostics :: "string list"
  all_keywords :: "addr list"

type_synonym 'a compile = "compile_state \<Rightarrow> ((fault + 'a) \<times> compile_state) option"

definition my_error :: "string \<Rightarrow> unit compile" where
  "my_error name = (\<lambda>s. Some (Inr (), s\<lparr>diagnostics := diagnostics s @ [name]\<rparr>))"

definition on_heap :: "'a run \<Rightarrow> 'a compile" where
  "on_heap m =
     (\<lambda>s. case m (heap s) of
             None \<Rightarrow> None
           | Some (r, h') \<Rightarrow> Some (r, s\<lparr>heap := h'\<rparr>))"

definition new_keyword :: "Json_schema_keyword \<Rightarrow> addr compile" where
  "new_keyword k = (\<lambda>s. Some (Inr (length (heap s)), s\<lparr>heap := heap s @ [k]\<rparr>))"

definition set_variant :: "addr \<Rightarrow> variant \<Rightarrow> unit compile" where
  "set_variant this v = on_heap (update_keyword this (\<lambda>k. k\<lparr>variant := v\<rparr>))"

text \<open>
  The constructor of the base class; \<^verbatim>\<open>priority\<close> is left uninitialised by it and is
  read only on the applicators, whose constructors set it.
\<close>

definition construct :: "string \<Rightarrow> variant \<Rightarrow> Json_schema_keyword" where
  "construct schema_name v =
     \<lparr>alternate_schema = None, unevaluated_properties = None, unevaluated_items = None,
      keyword_name = schema_name, value' = 0, priority = 0, allowed = True, index = 0,
      variant = v\<rparr>"

text \<open>
  Where the cursor of the schema stands when \<^verbatim>\<open>create_object_and_handle_keyword\<close> is
  entered. \<^verbatim>\<open>Json_schema_logic\<close> and \<^verbatim>\<open>Json_schema_prefix_items\<close> start a new scan on the
  text of one array element (\<open>New_scan\<close>); every other caller passes the cursor it has
  just read the keyword's value with (\<open>After_value is_last\<close>). The loop of
  \<^verbatim>\<open>create_object_and_handle_keyword\<close> takes the keys it meets at or below the level of
  that cursor. On an object these are its members. On a scalar, a new scan meets no
  key; a cursor that has just read a scalar value goes on with the members that
  follow the value in the enclosing object. It meets none, and the loops of the
  enclosing objects end with it, when only closing braces follow the value up to the
  end of the text: \<open>is_last\<close> says so. In the other cases the model gives no verdict.
\<close>

datatype cursor = New_scan | After_value bool

definition members_at :: "cursor \<Rightarrow> json \<Rightarrow> fault + (string \<times> json) list" where
  "members_at c je =
     (case je of
        JObject ms \<Rightarrow> Inr ms
      | JArray es \<Rightarrow> Inl Cursor_dependent
      | _ \<Rightarrow> (case c of
                New_scan \<Rightarrow> Inr []
              | After_value is_last \<Rightarrow> if is_last then Inr [] else Inl Cursor_dependent))"

type_synonym compile_call = "cursor \<Rightarrow> json \<Rightarrow> (bool \<times> addr list) compile"

text \<open>
  A \<^verbatim>\<open>handle_keyword\<close> that returns \<^verbatim>\<open>false\<close> without reading into an object or array
  value leaves the cursor at the start of that value, and the caller's loop then meets
  the keys inside it.
\<close>

definition leave_value :: "json \<Rightarrow> bool compile" where
  "leave_value je = (if json_value_scalar je then run_return False else run_fault Cursor_dependent)"

subsection \<open>\<^verbatim>\<open>handle_keyword\<close>\<close>

definition Json_schema_keyword_handle_keyword :: "json \<Rightarrow> bool compile" where
  "Json_schema_keyword_handle_keyword je = leave_value je"

definition Json_schema_annotation_handle_keyword :: "json \<Rightarrow> string \<Rightarrow> bool compile" where
  "Json_schema_annotation_handle_keyword je key =
     (if key = ''title'' \<or> key = ''description'' \<or> key = ''$comment'' \<or> key = ''$schema'' then
        (if value_type je \<noteq> JSON_VALUE_STRING
         then run_bind (my_error key) (\<lambda>_. run_return True)
         else run_return False)
      else if key = ''deprecated'' \<or> key = ''readOnly'' \<or> key = ''writeOnly'' then
        (if value_type je \<noteq> JSON_VALUE_TRUE \<and> value_type je \<noteq> JSON_VALUE_FALSE
         then run_bind (my_error key) (\<lambda>_. run_return True)
         else run_return False)
      else if key = ''example'' then
        (if value_type je \<noteq> JSON_VALUE_ARRAY
         then run_bind (my_error key) (\<lambda>_. run_return True)
         else run_return False)
      else if key = ''default'' then leave_value je
      else run_return True)"

definition Json_schema_format_handle_keyword :: "json \<Rightarrow> bool compile" where
  "Json_schema_format_handle_keyword je =
     run_bind (if value_type je \<noteq> JSON_VALUE_STRING then my_error ''format''
               else run_return ()) (\<lambda>_.
       leave_value je)"

fun assign_types :: "externals \<Rightarrow> uint \<Rightarrow> json list \<Rightarrow> uint" where
  "assign_types ext type [] = type"
| "assign_types ext type (je # rest) =
     assign_types ext (fst (json_assign_type ext type je)) rest"

definition Json_schema_type_handle_keyword ::
  "externals \<Rightarrow> addr \<Rightarrow> uint \<Rightarrow> json \<Rightarrow> bool compile" where
  "Json_schema_type_handle_keyword ext this type je =
     (case je of
        JArray es \<Rightarrow>
          if list_all json_value_scalar es then
            run_bind (set_variant this (Json_schema_type (assign_types ext type es))) (\<lambda>_.
              run_return False)
          else run_fault Cursor_dependent
      | JString s \<Rightarrow>
          run_bind (set_variant this
                      (Json_schema_type (fst (json_assign_type ext type je)))) (\<lambda>_.
            run_return (snd (json_assign_type ext type je)))
      | _ \<Rightarrow> run_bind (my_error ''type'') (\<lambda>_. run_return True))"

definition Json_schema_const_handle_keyword ::
  "externals \<Rightarrow> addr \<Rightarrow> json \<Rightarrow> bool compile" where
  "Json_schema_const_handle_keyword ext this je =
     run_bind (set_variant this (Json_schema_const None (value_type je))) (\<lambda>_.
       case (case je of JString s \<Rightarrow> Some s | _ \<Rightarrow> json_get_normalized_string ext je) of
         None \<Rightarrow> run_return True
       | Some a_res \<Rightarrow>
           run_bind (set_variant this (Json_schema_const (Some a_res) (value_type je))) (\<lambda>_.
             run_return False))"

text \<open>The scan loop of \<^verbatim>\<open>Json_schema_enum::handle_keyword\<close>; \<open>None\<close> is \<^verbatim>\<open>return true\<close>.\<close>

fun enum_scan ::
  "externals \<Rightarrow> string list \<Rightarrow> uint \<Rightarrow> json list \<Rightarrow> (string list \<times> uint) option" where
  "enum_scan ext enum_values enum_scalar [] = Some (enum_values, enum_scalar)"
| "enum_scan ext enum_values enum_scalar (je # rest) =
     (let enum_scalar' =
            (if value_type_code ext JSON_VALUE_NUMBER < value_type_code ext (value_type je)
             then (if value_type je = JSON_VALUE_TRUE then enum_scalar OR HAS_TRUE_VAL
                   else if value_type je = JSON_VALUE_FALSE then enum_scalar OR HAS_FALSE_VAL
                   else if value_type je = JSON_VALUE_NULL then enum_scalar OR HAS_NULL_VAL
                   else enum_scalar)
             else enum_scalar)
      in case json_get_normalized_string ext je of
           None \<Rightarrow> None
         | Some norm_str \<Rightarrow> enum_scan ext (enum_values @ [norm_str]) enum_scalar' rest)"

definition Json_schema_enum_handle_keyword ::
  "externals \<Rightarrow> addr \<Rightarrow> json \<Rightarrow> bool compile" where
  "Json_schema_enum_handle_keyword ext this je =
     (case je of
        JArray es \<Rightarrow>
          (case enum_scan ext [] 0 es of
             None \<Rightarrow> run_return True
           | Some (enum_values, enum_scalar) \<Rightarrow>
               run_bind (set_variant this (Json_schema_enum enum_values enum_scalar)) (\<lambda>_.
                 run_return False))
      | _ \<Rightarrow> run_bind (my_error ''enum'') (\<lambda>_. run_return True))"

definition Json_schema_maximum_handle_keyword :: "addr \<Rightarrow> json \<Rightarrow> bool compile" where
  "Json_schema_maximum_handle_keyword this je =
     (case je of
        JNumber val \<Rightarrow>
          run_bind (set_variant this (Json_schema_maximum val)) (\<lambda>_. run_return False)
      | _ \<Rightarrow> run_bind (my_error ''maximum'') (\<lambda>_. run_return True))"

definition Json_schema_minimum_handle_keyword :: "addr \<Rightarrow> json \<Rightarrow> bool compile" where
  "Json_schema_minimum_handle_keyword this je =
     (case je of
        JNumber val \<Rightarrow>
          run_bind (set_variant this (Json_schema_minimum val)) (\<lambda>_. run_return False)
      | _ \<Rightarrow> run_bind (my_error ''minimum'') (\<lambda>_. run_return True))"

definition Json_schema_ex_minimum_handle_keyword :: "addr \<Rightarrow> json \<Rightarrow> bool compile" where
  "Json_schema_ex_minimum_handle_keyword this je =
     (case je of
        JNumber val \<Rightarrow>
          run_bind (set_variant this (Json_schema_ex_minimum val)) (\<lambda>_. run_return False)
      | _ \<Rightarrow> run_bind (my_error ''exclusiveMinimum'') (\<lambda>_. run_return True))"

definition Json_schema_ex_maximum_handle_keyword :: "addr \<Rightarrow> json \<Rightarrow> bool compile" where
  "Json_schema_ex_maximum_handle_keyword this je =
     (case je of
        JNumber val \<Rightarrow>
          run_bind (set_variant this (Json_schema_ex_maximum val)) (\<lambda>_. run_return False)
      | _ \<Rightarrow> run_bind (my_error ''exclusiveMaximum'') (\<lambda>_. run_return True))"

text \<open>
  \<^verbatim>\<open>if (val < 0) my_error(...); multiple_of= val; return false;\<close>
\<close>

definition Json_schema_multiple_of_handle_keyword :: "addr \<Rightarrow> json \<Rightarrow> bool compile" where
  "Json_schema_multiple_of_handle_keyword this je =
     (case je of
        JNumber val \<Rightarrow>
          run_bind (if val < 0 then my_error ''multipleOf'' else run_return ()) (\<lambda>_.
          run_bind (set_variant this (Json_schema_multiple_of val)) (\<lambda>_.
            run_return False))
      | _ \<Rightarrow> run_bind (my_error ''multipleOf'') (\<lambda>_. run_return True))"

text \<open>
  The six keywords with an unsigned bound share one shape:
  \<^verbatim>\<open>if (val < 0) my_error(..., negative_name); bound= (int)val; return false;\<close>.
  \<^verbatim>\<open>Json_schema_min_items\<close> names \<^verbatim>\<open>"maxLength"\<close> in the report of a negative value.
\<close>

definition handle_unsigned_bound ::
  "string \<Rightarrow> string \<Rightarrow> (uint \<Rightarrow> variant) \<Rightarrow> addr \<Rightarrow> json \<Rightarrow> bool compile" where
  "handle_unsigned_bound name negative_name mk this je =
     (case je of
        JNumber val \<Rightarrow>
          run_bind (if val < 0 then my_error negative_name else run_return ()) (\<lambda>_.
          run_bind (run_pure (double_to_int val)) (\<lambda>i.
          run_bind (set_variant this (mk (word_of_int i))) (\<lambda>_.
            run_return False)))
      | _ \<Rightarrow> run_bind (my_error name) (\<lambda>_. run_return True))"

definition Json_schema_max_len_handle_keyword :: "addr \<Rightarrow> json \<Rightarrow> bool compile" where
  "Json_schema_max_len_handle_keyword =
     handle_unsigned_bound ''maxLength'' ''maxLength'' Json_schema_max_len"

definition Json_schema_min_len_handle_keyword :: "addr \<Rightarrow> json \<Rightarrow> bool compile" where
  "Json_schema_min_len_handle_keyword =
     handle_unsigned_bound ''minLength'' ''minLength'' Json_schema_min_len"

definition Json_schema_max_items_handle_keyword :: "addr \<Rightarrow> json \<Rightarrow> bool compile" where
  "Json_schema_max_items_handle_keyword =
     handle_unsigned_bound ''maxItems'' ''maxItems'' Json_schema_max_items"

definition Json_schema_min_items_handle_keyword :: "addr \<Rightarrow> json \<Rightarrow> bool compile" where
  "Json_schema_min_items_handle_keyword =
     handle_unsigned_bound ''minItems'' ''maxLength'' Json_schema_min_items"

definition Json_schema_max_prop_handle_keyword :: "addr \<Rightarrow> json \<Rightarrow> bool compile" where
  "Json_schema_max_prop_handle_keyword =
     handle_unsigned_bound ''maxProperties'' ''maxProperties'' Json_schema_max_prop"

definition Json_schema_min_prop_handle_keyword :: "addr \<Rightarrow> json \<Rightarrow> bool compile" where
  "Json_schema_min_prop_handle_keyword =
     handle_unsigned_bound ''minProperties'' ''minProperties'' Json_schema_min_prop"

definition handle_contains_bound :: "string \<Rightarrow> addr \<Rightarrow> json \<Rightarrow> bool compile" where
  "handle_contains_bound name this je =
     (case je of
        JNumber val \<Rightarrow>
          run_bind (run_pure (double_to_uint val)) (\<lambda>u.
          run_bind (on_heap (update_keyword this (\<lambda>k. k\<lparr>value' := u\<rparr>))) (\<lambda>_.
            run_return False))
      | _ \<Rightarrow> run_bind (my_error name) (\<lambda>_. run_return True))"

definition Json_schema_max_contains_handle_keyword :: "addr \<Rightarrow> json \<Rightarrow> bool compile" where
  "Json_schema_max_contains_handle_keyword = handle_contains_bound ''maxContains''"

definition Json_schema_min_contains_handle_keyword :: "addr \<Rightarrow> json \<Rightarrow> bool compile" where
  "Json_schema_min_contains_handle_keyword = handle_contains_bound ''minContains''"

definition Json_schema_pattern_handle_keyword :: "addr \<Rightarrow> json \<Rightarrow> bool compile" where
  "Json_schema_pattern_handle_keyword this je =
     (case je of
        JString s \<Rightarrow>
          run_bind (set_variant this (Json_schema_pattern (Some s))) (\<lambda>_. run_return False)
      | _ \<Rightarrow> run_bind (my_error ''pattern'') (\<lambda>_. run_return True))"

definition Json_schema_unique_items_handle_keyword :: "addr \<Rightarrow> json \<Rightarrow> bool compile" where
  "Json_schema_unique_items_handle_keyword this je =
     (if value_type je = JSON_VALUE_TRUE then
        run_bind (set_variant this (Json_schema_unique_items True)) (\<lambda>_. run_return False)
      else if value_type je = JSON_VALUE_FALSE then
        run_bind (set_variant this (Json_schema_unique_items False)) (\<lambda>_. run_return False)
      else run_bind (my_error ''uniqueItems'') (\<lambda>_. run_return True))"

text \<open>
  \<^verbatim>\<open>Json_schema_required::handle_keyword\<close> keeps the bytes of every element it reads,
  whatever its kind, and does not skip an element that is an object or an array. The
  model holds the bytes of strings and of the three literals.
\<close>

fun value_bytes :: "json \<Rightarrow> fault + string" where
  "value_bytes (JString s) = Inr s"
| "value_bytes JTrue = Inr ''true''"
| "value_bytes JFalse = Inr ''false''"
| "value_bytes JNull = Inr ''null''"
| "value_bytes je = Inl Cursor_dependent"

fun required_scan :: "json list \<Rightarrow> fault + string list" where
  "required_scan [] = Inr []"
| "required_scan (je # rest) =
     (case value_bytes je of
        Inl f \<Rightarrow> Inl f
      | Inr str \<Rightarrow> (case required_scan rest of Inl f \<Rightarrow> Inl f | Inr strs \<Rightarrow> Inr (str # strs)))"

definition Json_schema_required_handle_keyword :: "addr \<Rightarrow> json \<Rightarrow> bool compile" where
  "Json_schema_required_handle_keyword this je =
     (case je of
        JArray es \<Rightarrow>
          run_bind (run_pure (required_scan es)) (\<lambda>required_properties.
          run_bind (set_variant this (Json_schema_required required_properties)) (\<lambda>_.
            run_return False))
      | _ \<Rightarrow> run_bind (my_error ''required'') (\<lambda>_. run_return True))"

text \<open>The two nested scan loops of \<^verbatim>\<open>Json_schema_dependent_prop::handle_keyword\<close>;
  \<open>None\<close> is the report and \<^verbatim>\<open>return true\<close>.\<close>

fun dependents_scan :: "json list \<Rightarrow> string list option" where
  "dependents_scan [] = Some []"
| "dependents_scan (JString s # rest) = map_option ((#) s) (dependents_scan rest)"
| "dependents_scan (je # rest) = None"

fun dependent_prop_scan :: "(string \<times> json) list \<Rightarrow> (string \<times> string list) list option" where
  "dependent_prop_scan [] = Some []"
| "dependent_prop_scan ((k, JArray es) # rest) =
     (case dependents_scan es of
        None \<Rightarrow> None
      | Some dependents \<Rightarrow> map_option ((#) (k, dependents)) (dependent_prop_scan rest))"
| "dependent_prop_scan ((k, je) # rest) = None"

definition Json_schema_dependent_prop_handle_keyword :: "addr \<Rightarrow> json \<Rightarrow> bool compile" where
  "Json_schema_dependent_prop_handle_keyword this je =
     (case je of
        JObject ms \<Rightarrow>
          (case dependent_prop_scan ms of
             None \<Rightarrow> run_bind (my_error ''dependentRequired'') (\<lambda>_. run_return True)
           | Some dependent_required \<Rightarrow>
               run_bind (set_variant this (Json_schema_dependent_prop dependent_required)) (\<lambda>_.
                 run_return False))
      | _ \<Rightarrow> run_bind (my_error ''dependentRequired'') (\<lambda>_. run_return True))"

text \<open>
  The keywords that own sub-schemas compile them with
  \<^verbatim>\<open>create_object_and_handle_keyword\<close>, the argument \<open>compile\<close> of their models.
\<close>

definition Json_schema_contains_handle_keyword ::
  "compile_call \<Rightarrow> cursor \<Rightarrow> addr \<Rightarrow> json \<Rightarrow> bool compile" where
  "Json_schema_contains_handle_keyword compile c this je =
     (if value_type je \<noteq> JSON_VALUE_OBJECT
      then run_bind (my_error ''contains'') (\<lambda>_. run_return True)
      else run_bind (compile c je) (\<lambda>(res, keyword_list).
           run_bind (set_variant this (Json_schema_contains keyword_list None None)) (\<lambda>_.
             run_return res)))"

text \<open>
  The scan loop of \<^verbatim>\<open>Json_schema_prefix_items::handle_keyword\<close> and of
  \<^verbatim>\<open>Json_schema_logic::handle_keyword\<close>: \<^verbatim>\<open>json_read_value\<close>, \<^verbatim>\<open>json_skip_level\<close>, and a
  new scan of the text between the two. After a scalar element \<^verbatim>\<open>json_skip_level\<close> runs
  to the end of the array, so the text of a scalar that is not the last element takes
  in the elements after it: no verdict there.
\<close>

fun schema_array_scan ::
  "compile_call \<Rightarrow> json list \<Rightarrow> addr list list \<Rightarrow> (bool \<times> addr list list) compile" where
  "schema_array_scan compile [] schemas = run_return (False, schemas)"
| "schema_array_scan compile (je # rest) schemas =
     (if json_value_scalar je \<and> rest \<noteq> [] then run_fault Cursor_dependent
      else
        run_bind (compile New_scan je) (\<lambda>(res, keyword_list).
          if res then run_return (True, schemas)
          else schema_array_scan compile rest (schemas @ [keyword_list])))"

definition Json_schema_prefix_items_handle_keyword ::
  "compile_call \<Rightarrow> addr \<Rightarrow> json \<Rightarrow> bool compile" where
  "Json_schema_prefix_items_handle_keyword compile this je =
     (case je of
        JArray es \<Rightarrow>
          run_bind (schema_array_scan compile es []) (\<lambda>(res, prefix_items).
          run_bind (set_variant this (Json_schema_prefix_items prefix_items)) (\<lambda>_.
            run_return res))
      | _ \<Rightarrow> run_bind (my_error ''prefixItems'') (\<lambda>_. run_return True))"

text \<open>
  \<^verbatim>\<open>Json_schema_items::handle_keyword\<close> on an array calls the \<^verbatim>\<open>handle_keyword\<close> of the
  prefix list it creates and drops what that call returns. When the call has stopped
  at an element (\<^verbatim>\<open>return true\<close>), the cursor stands behind that element: behind the
  last one, the caller's loop goes on with the members that follow the array; behind
  another one it goes on inside the array, and the model gives no verdict.
  \<open>elements_left\<close> tells the two apart, from the number of sub-schemas the prefix list
  holds.
\<close>

definition elements_left :: "addr \<Rightarrow> json \<Rightarrow> bool run" where
  "elements_left validate_like_prefix je =
     run_bind (get_keyword validate_like_prefix) (\<lambda>p.
       case (je, variant p) of
         (JArray es, Json_schema_prefix_items prefix_items) \<Rightarrow>
           run_return (Suc (length prefix_items) < length es)
       | _ \<Rightarrow> run_return False)"

definition Json_schema_items_handle_keyword ::
  "compile_call \<Rightarrow> cursor \<Rightarrow> addr \<Rightarrow> json \<Rightarrow> bool compile" where
  "Json_schema_items_handle_keyword compile c this je =
     (if value_type je = JSON_VALUE_OBJECT then
        run_bind (compile c je) (\<lambda>(res, validate_like_schema).
        run_bind (set_variant this (Json_schema_items None validate_like_schema)) (\<lambda>_.
          run_return res))
      else if value_type je = JSON_VALUE_ARRAY then
        run_bind (new_keyword ((construct ''items'' (Json_schema_prefix_items []))
                                 \<lparr>priority := 1\<rparr>)) (\<lambda>validate_like_prefix.
        run_bind (set_variant this (Json_schema_items (Some validate_like_prefix) [])) (\<lambda>_.
        run_bind (Json_schema_prefix_items_handle_keyword compile validate_like_prefix je)
          (\<lambda>stopped.
        run_bind (on_heap (elements_left validate_like_prefix je)) (\<lambda>inside.
          if stopped \<and> inside then run_fault Cursor_dependent else run_return False))))
      else if value_type je \<noteq> JSON_VALUE_TRUE \<and> value_type je \<noteq> JSON_VALUE_FALSE then
        run_bind (my_error ''items'') (\<lambda>_. run_return True)
      else run_return False)"

definition Json_schema_property_names_handle_keyword ::
  "compile_call \<Rightarrow> cursor \<Rightarrow> addr \<Rightarrow> json \<Rightarrow> bool compile" where
  "Json_schema_property_names_handle_keyword compile c this je =
     (if value_type je \<noteq> JSON_VALUE_OBJECT
      then run_bind (my_error ''propertyNames'') (\<lambda>_. run_return True)
      else run_bind (compile c je) (\<lambda>(res, property_names).
           run_bind (set_variant this (Json_schema_property_names property_names)) (\<lambda>_.
             if res then run_return True else run_return False)))"

definition Json_schema_additional_and_unevaluated_handle_keyword ::
  "compile_call \<Rightarrow> cursor \<Rightarrow> (addr list \<Rightarrow> variant) \<Rightarrow> addr \<Rightarrow> json \<Rightarrow> bool compile" where
  "Json_schema_additional_and_unevaluated_handle_keyword compile c mk this je =
     run_bind (compile c je) (\<lambda>(res, schema_list).
     run_bind (set_variant this (mk schema_list)) (\<lambda>_.
       run_return res))"

text \<open>The scan loop of \<^verbatim>\<open>Json_schema_properties::handle_keyword\<close>, and the same loop of
  \<^verbatim>\<open>Json_schema_pattern_properties::handle_keyword\<close>: one sub-schema for each member.
  \<open>inner_last\<close> is as in \<open>members_loop\<close> below.\<close>

fun properties_compile ::
  "compile_call \<Rightarrow> bool \<Rightarrow> (string \<times> json) list \<Rightarrow> (string \<times> addr list) list \<Rightarrow>
   (bool \<times> (string \<times> addr list) list) compile" where
  "properties_compile compile inner_last [] properties = run_return (False, properties)"
| "properties_compile compile inner_last ((key, je) # rest) properties =
     run_bind (compile (After_value (inner_last \<and> rest = [])) je) (\<lambda>(res, curr_schema).
       if res then run_return (True, properties)
       else properties_compile compile inner_last rest (properties @ [(key, curr_schema)]))"

definition Json_schema_properties_handle_keyword ::
  "compile_call \<Rightarrow> cursor \<Rightarrow> addr \<Rightarrow> json \<Rightarrow> bool compile" where
  "Json_schema_properties_handle_keyword compile c this je =
     (case je of
        JObject ms \<Rightarrow>
          run_bind (properties_compile compile (c = After_value True) ms [])
            (\<lambda>(res, properties).
          run_bind (set_variant this (Json_schema_properties properties)) (\<lambda>_.
            run_return res))
      | _ \<Rightarrow> run_bind (my_error ''properties'') (\<lambda>_. run_return True))"

definition Json_schema_pattern_properties_handle_keyword ::
  "compile_call \<Rightarrow> cursor \<Rightarrow> addr \<Rightarrow> json \<Rightarrow> bool compile" where
  "Json_schema_pattern_properties_handle_keyword compile c this je =
     (case je of
        JObject ms \<Rightarrow>
          run_bind (properties_compile compile (c = After_value True) ms [])
            (\<lambda>(res, pattern_properties).
          run_bind (set_variant this (Json_schema_pattern_properties pattern_properties)) (\<lambda>_.
            run_return res))
      | _ \<Rightarrow> run_bind (my_error ''patternProperties'') (\<lambda>_. run_return True))"

definition Json_schema_logic_handle_keyword ::
  "compile_call \<Rightarrow> logic_class \<Rightarrow> addr \<Rightarrow> json \<Rightarrow> bool compile" where
  "Json_schema_logic_handle_keyword compile cls this je =
     (case je of
        JArray es \<Rightarrow>
          run_bind (schema_array_scan compile es []) (\<lambda>(res, schema_items).
          run_bind (set_variant this (Json_schema_logic cls None None schema_items)) (\<lambda>_.
            run_return res))
      | _ \<Rightarrow>
          run_bind (on_heap (get_keyword this)) (\<lambda>k.
          run_bind (my_error (keyword_name k)) (\<lambda>_. run_return True)))"

definition Json_schema_not_handle_keyword ::
  "compile_call \<Rightarrow> cursor \<Rightarrow> addr \<Rightarrow> json \<Rightarrow> bool compile" where
  "Json_schema_not_handle_keyword compile c this je =
     run_bind (compile c je) (\<lambda>(res, schema_list).
     run_bind (set_variant this (Json_schema_not None None schema_list)) (\<lambda>_.
       run_return res))"

definition Json_schema_conditional_handle_keyword ::
  "compile_call \<Rightarrow> cursor \<Rightarrow> conditional_class \<Rightarrow> addr \<Rightarrow> json \<Rightarrow> bool compile" where
  "Json_schema_conditional_handle_keyword compile c cls this je =
     run_bind (compile c je) (\<lambda>(res, conditions_schema).
     run_bind (set_variant this
                 (Json_schema_conditional cls conditions_schema None None None)) (\<lambda>_.
       run_return res))"

definition handle_keyword ::
  "externals \<Rightarrow> compile_call \<Rightarrow> cursor \<Rightarrow> addr \<Rightarrow> json \<Rightarrow> string \<Rightarrow> bool compile" where
  "handle_keyword ext compile c this je key =
     run_bind (on_heap (get_keyword this)) (\<lambda>k.
       case variant k of
         Json_schema_keyword_base \<Rightarrow> Json_schema_keyword_handle_keyword je
       | Json_schema_additional_items schema_list \<Rightarrow>
           Json_schema_additional_and_unevaluated_handle_keyword compile c
             Json_schema_additional_items this je
       | Json_schema_unevaluated_items schema_list \<Rightarrow>
           Json_schema_additional_and_unevaluated_handle_keyword compile c
             Json_schema_unevaluated_items this je
       | Json_schema_additional_properties schema_list \<Rightarrow>
           Json_schema_additional_and_unevaluated_handle_keyword compile c
             Json_schema_additional_properties this je
       | Json_schema_unevaluated_properties schema_list \<Rightarrow>
           Json_schema_additional_and_unevaluated_handle_keyword compile c
             Json_schema_unevaluated_properties this je
       | Json_schema_annotation \<Rightarrow> Json_schema_annotation_handle_keyword je key
       | Json_schema_format \<Rightarrow> Json_schema_format_handle_keyword je
       | Json_schema_type type \<Rightarrow> Json_schema_type_handle_keyword ext this type je
       | Json_schema_const const_json_value type \<Rightarrow>
           Json_schema_const_handle_keyword ext this je
       | Json_schema_enum enum_values enum_scalar \<Rightarrow>
           Json_schema_enum_handle_keyword ext this je
       | Json_schema_maximum maximum \<Rightarrow> Json_schema_maximum_handle_keyword this je
       | Json_schema_minimum minimum \<Rightarrow> Json_schema_minimum_handle_keyword this je
       | Json_schema_multiple_of multiple_of \<Rightarrow>
           Json_schema_multiple_of_handle_keyword this je
       | Json_schema_ex_maximum ex_max \<Rightarrow> Json_schema_ex_maximum_handle_keyword this je
       | Json_schema_ex_minimum ex_min \<Rightarrow> Json_schema_ex_minimum_handle_keyword this je
       | Json_schema_max_len max_len \<Rightarrow> Json_schema_max_len_handle_keyword this je
       | Json_schema_min_len min_len \<Rightarrow> Json_schema_min_len_handle_keyword this je
       | Json_schema_pattern pattern \<Rightarrow> Json_schema_pattern_handle_keyword this je
       | Json_schema_max_items max_items \<Rightarrow> Json_schema_max_items_handle_keyword this je
       | Json_schema_min_items min_items \<Rightarrow> Json_schema_min_items_handle_keyword this je
       | Json_schema_max_contains \<Rightarrow> Json_schema_max_contains_handle_keyword this je
       | Json_schema_min_contains \<Rightarrow> Json_schema_min_contains_handle_keyword this je
       | Json_schema_contains contains max_contains min_contains \<Rightarrow>
           Json_schema_contains_handle_keyword compile c this je
       | Json_schema_unique_items is_unique \<Rightarrow>
           Json_schema_unique_items_handle_keyword this je
       | Json_schema_prefix_items prefix_items \<Rightarrow>
           Json_schema_prefix_items_handle_keyword compile this je
       | Json_schema_items validate_like_prefix validate_like_schema \<Rightarrow>
           Json_schema_items_handle_keyword compile c this je
       | Json_schema_property_names property_names \<Rightarrow>
           Json_schema_property_names_handle_keyword compile c this je
       | Json_schema_properties properties \<Rightarrow>
           Json_schema_properties_handle_keyword compile c this je
       | Json_schema_pattern_properties pattern_properties \<Rightarrow>
           Json_schema_pattern_properties_handle_keyword compile c this je
       | Json_schema_max_prop max_prop \<Rightarrow> Json_schema_max_prop_handle_keyword this je
       | Json_schema_min_prop min_prop \<Rightarrow> Json_schema_min_prop_handle_keyword this je
       | Json_schema_required required_properties \<Rightarrow>
           Json_schema_required_handle_keyword this je
       | Json_schema_dependent_prop dependent_required \<Rightarrow>
           Json_schema_dependent_prop_handle_keyword this je
       | Json_schema_not unevaluated_items' unevaluated_properties' schema_list \<Rightarrow>
           Json_schema_not_handle_keyword compile c this je
       | Json_schema_logic cls unevaluated_items' unevaluated_properties' schema_items \<Rightarrow>
           Json_schema_logic_handle_keyword compile cls this je
       | Json_schema_conditional cls conditions_schema if_cond then_cond else_cond \<Rightarrow>
           Json_schema_conditional_handle_keyword compile c cls this je)"

subsection \<open>\<^verbatim>\<open>create_object\<close>\<close>

text \<open>
  The factory picks the class by the key and, for five applicators, computes
  \<^verbatim>\<open>allowed_val\<close> from the kind of the value the cursor stands on. Three of them compare
  \<^verbatim>\<open>je->value_type\<close> with the macro \<^verbatim>\<open>TRUE\<close>, \<^verbatim>\<open>unevaluatedProperties\<close> compares it with
  \<^verbatim>\<open>JSON_VALUE_TRUE\<close>.
\<close>

definition format_names :: "string list" where
  "format_names =
     [''date-time'', ''date'', ''time'', ''duration'', ''email'', ''idn-email'', ''hostname'',
      ''idn-hostname'', ''ipv4'', ''ipv6'', ''uri'', ''uri-reference'', ''iri'',
      ''iri-reference'', ''uuid'', ''json-pointer'', ''relative-json-pointer'', ''regex'']"

definition annotation_names :: "string list" where
  "annotation_names =
     [''title'', ''description'', ''$comment'', ''$schema'', ''deprecated'', ''readOnly'',
      ''writeOnly'', ''example'', ''default'']"

definition create_object :: "externals \<Rightarrow> json \<Rightarrow> string \<Rightarrow> Json_schema_keyword" where
  "create_object ext je key =
     (if key = ''type'' then construct ''type'' (Json_schema_type 0)
      else if key = ''const'' then construct ''const'' (Json_schema_const None JSON_VALUE_OBJECT)
      else if key = ''enum'' then construct ''enum'' (Json_schema_enum [] 0)
      else if key = ''maximum'' then construct ''maximum'' (Json_schema_maximum 0)
      else if key = ''minimum'' then construct ''minimum'' (Json_schema_minimum 0)
      else if key = ''exclusiveMaximum''
        then construct ''exclusiveMaximum'' (Json_schema_ex_maximum 0)
      else if key = ''exclusiveMinimum''
        then construct ''exclusiveMinimum'' (Json_schema_ex_minimum 0)
      else if key = ''multipleOf'' then construct ''multipleOf'' (Json_schema_multiple_of 0)
      else if key = ''maxLength'' then construct ''maxLength'' (Json_schema_max_len 0)
      else if key = ''minLength'' then construct ''minLength'' (Json_schema_min_len 0)
      else if key = ''pattern'' then construct ''pattern'' (Json_schema_pattern None)
      else if key = ''maxItems'' then construct ''maxItems'' (Json_schema_max_items 0)
      else if key = ''minItems'' then construct ''minItems'' (Json_schema_min_items 0)
      else if key = ''contains''
        then construct ''contains'' (Json_schema_contains [] None None)
      else if key = ''maxContains'' then construct ''maxContains'' Json_schema_max_contains
      else if key = ''minContains'' then construct ''minContains'' Json_schema_min_contains
      else if key = ''prefixItems''
        then (construct ''prefixItems'' (Json_schema_prefix_items []))\<lparr>priority := 1\<rparr>
      else if key = ''items'' then
        (let allowed_val =
               (if value_type je = JSON_VALUE_TRUE \<or> value_type je = JSON_VALUE_OBJECT
                   \<or> value_type je = JSON_VALUE_ARRAY then True else False)
         in (construct ''items'' (Json_schema_items None []))
              \<lparr>priority := 2, allowed := allowed_val\<rparr>)
      else if key = ''uniqueItems''
        then construct ''uniqueItems'' (Json_schema_unique_items False)
      else if key = ''additionalItems'' then
        (let allowed_val =
               (if value_type_code ext (value_type je) = TRUE_macro ext then True else False)
         in (construct ''additionalItems'' (Json_schema_additional_items []))
              \<lparr>priority := 3, allowed := allowed_val\<rparr>)
      else if key = ''unevaluatedItems'' then
        (let allowed_val =
               (if value_type_code ext (value_type je) = TRUE_macro ext then True else False)
         in (construct ''unevaluatedItems'' (Json_schema_unevaluated_items []))
              \<lparr>priority := 4, allowed := allowed_val\<rparr>)
      else if key = ''propertyNames''
        then construct ''propertyNames'' (Json_schema_property_names [])
      else if key = ''properties''
        then (construct ''properties'' (Json_schema_properties []))\<lparr>priority := 1\<rparr>
      else if key = ''additionalProperties'' then
        (let allowed_val =
               (if value_type_code ext (value_type je) = TRUE_macro ext then True else False)
         in (construct ''additionalProperties'' (Json_schema_additional_properties []))
              \<lparr>priority := 3, allowed := allowed_val\<rparr>)
      else if key = ''patternProperties''
        then (construct ''patternProperties'' (Json_schema_pattern_properties []))
               \<lparr>priority := 2\<rparr>
      else if key = ''unevaluatedProperties'' then
        (let allowed_val = (if value_type je = JSON_VALUE_TRUE then True else False)
         in (construct ''unevaluatedProperties'' (Json_schema_unevaluated_properties []))
              \<lparr>priority := 4, allowed := allowed_val\<rparr>)
      else if key = ''propertyName''
        then construct ''propertyName'' (Json_schema_property_names [])
      else if key = ''maxProperties'' then construct ''maxProperties'' (Json_schema_max_prop 0)
      else if key = ''minProperties'' then construct ''minProperties'' (Json_schema_min_prop 0)
      else if key = ''required'' then construct ''required'' (Json_schema_required [])
      else if key = ''dependentRequired''
        then construct ''dependentRequired'' (Json_schema_dependent_prop [])
      else if key = ''not'' then construct ''not'' (Json_schema_not None None [])
      else if key = ''anyOf''
        then construct ''anyOf'' (Json_schema_logic Class_any_of None None [])
      else if key = ''oneOf''
        then construct ''oneOf'' (Json_schema_logic Class_one_of None None [])
      else if key = ''allOf''
        then construct ''allOf'' (Json_schema_logic Class_all_of None None [])
      else if key = ''if''
        then construct ''if'' (Json_schema_conditional Class_if [] None None None)
      else if key = ''then''
        then construct ''then'' (Json_schema_conditional Class_then [] None None None)
      else if key = ''else''
        then construct ''else'' (Json_schema_conditional Class_else [] None None None)
      else if key \<in> set annotation_names then construct ''annotation'' Json_schema_annotation
      else if key \<in> set format_names then construct ''format'' Json_schema_format
      else construct [] Json_schema_keyword_base)"

subsection \<open>\<^verbatim>\<open>add_schema_interdependence\<close>\<close>

text \<open>
  \<^verbatim>\<open>!strncmp(temp_keyword->keyword_name, lit, strlen(lit))\<close> holds when the keyword's
  name starts with the literal.
\<close>

definition strncmp_eq :: "string \<Rightarrow> string \<Rightarrow> bool" where
  "strncmp_eq name lit = (take (length lit) name = lit)"

text \<open>The local variables of \<^verbatim>\<open>add_schema_interdependence\<close>, with the entries it appends
  to \<^verbatim>\<open>keyword_list\<close>.\<close>

record interdependence =
  array_prop :: "addr list"
  object_prop :: "addr list"
  logic_prop :: "addr list"
  contains :: "addr option"
  max_contains :: "addr option"
  min_contains :: "addr option"
  unevalauted_item :: "addr option"
  unevaluated_prop :: "addr option"
  if_cond :: "addr option"
  then_cond :: "addr option"
  else_cond :: "addr option"
  keyword_list :: "addr list"

definition interdependence_init :: interdependence where
  "interdependence_init =
     \<lparr>array_prop = [], object_prop = [], logic_prop = [], contains = None,
      max_contains = None, min_contains = None, unevalauted_item = None,
      unevaluated_prop = None, if_cond = None, then_cond = None, else_cond = None,
      keyword_list = []\<rparr>"

text \<open>
  One round of the first loop. The third branch of the conditional group compares
  with \<^verbatim>\<open>"then"\<close> a second time, after the branch that has taken every name starting
  with \<^verbatim>\<open>"then"\<close>.
\<close>

definition sort_keyword :: "string \<Rightarrow> addr \<Rightarrow> interdependence \<Rightarrow> interdependence" where
  "sort_keyword name temp_keyword v =
     (if strncmp_eq name ''items'' \<or> strncmp_eq name ''prefixItems''
         \<or> strncmp_eq name ''additionalItems'' \<or> strncmp_eq name ''unevaluatedItems'' then
        (if strncmp_eq name ''unevaluatedItems''
         then v\<lparr>unevalauted_item := Some temp_keyword\<rparr>
         else v\<lparr>array_prop := array_prop v @ [temp_keyword]\<rparr>)
      else if strncmp_eq name ''properties'' \<or> strncmp_eq name ''patternProperties''
         \<or> strncmp_eq name ''additionalProperties''
         \<or> strncmp_eq name ''unevaluatedProperties'' then
        (let v' = (if strncmp_eq name ''unevaluatedProperties''
                   then v\<lparr>unevaluated_prop := Some temp_keyword\<rparr> else v)
         in v'\<lparr>object_prop := object_prop v' @ [temp_keyword]\<rparr>)
      else if strncmp_eq name ''allOf'' \<or> strncmp_eq name ''anyOf''
         \<or> strncmp_eq name ''oneOf'' \<or> strncmp_eq name ''not'' then
        v\<lparr>logic_prop := logic_prop v @ [temp_keyword],
          keyword_list := keyword_list v @ [temp_keyword]\<rparr>
      else if strncmp_eq name ''if'' \<or> strncmp_eq name ''then'' \<or> strncmp_eq name ''else'' then
        (if strncmp_eq name ''if'' then v\<lparr>if_cond := Some temp_keyword\<rparr>
         else if strncmp_eq name ''then'' then v\<lparr>then_cond := Some temp_keyword\<rparr>
         else if strncmp_eq name ''then'' then v\<lparr>else_cond := Some temp_keyword\<rparr>
         else v)
      else
        (if strncmp_eq name ''contains''
         then v\<lparr>keyword_list := keyword_list v @ [temp_keyword],
                contains := Some temp_keyword\<rparr>
         else if strncmp_eq name ''minContains'' then v\<lparr>min_contains := Some temp_keyword\<rparr>
         else if strncmp_eq name ''maxContains'' then v\<lparr>max_contains := Some temp_keyword\<rparr>
         else v\<lparr>keyword_list := keyword_list v @ [temp_keyword]\<rparr>))"

fun sort_keywords :: "addr list \<Rightarrow> interdependence \<Rightarrow> interdependence run" where
  "sort_keywords [] v = run_return v"
| "sort_keywords (temp_keyword # rest) v =
     run_bind (get_keyword temp_keyword) (\<lambda>k.
       sort_keywords rest (sort_keyword (keyword_name k) temp_keyword v))"

text \<open>
  \<^verbatim>\<open>set_dependents\<close> is virtual: \<^verbatim>\<open>Json_schema_conditional\<close> stores the two pointers in
  \<^verbatim>\<open>then_cond\<close> and \<^verbatim>\<open>else_cond\<close>, \<^verbatim>\<open>Json_schema_contains\<close> in \<^verbatim>\<open>min_contains\<close> and
  \<^verbatim>\<open>max_contains\<close>, \<^verbatim>\<open>Json_schema_logic\<close> in the two fields it declares, and the base
  class does nothing. No override assigns \<^verbatim>\<open>if_cond\<close>.
\<close>

definition set_dependents :: "addr \<Rightarrow> addr option \<Rightarrow> addr option \<Rightarrow> unit run" where
  "set_dependents this schema1 schema2 =
     update_keyword this (\<lambda>k.
       case variant k of
         Json_schema_conditional cls conditions_schema i t e \<Rightarrow>
           k\<lparr>variant := Json_schema_conditional cls conditions_schema i schema1 schema2\<rparr>
       | Json_schema_contains cs mx mn \<Rightarrow>
           k\<lparr>variant := Json_schema_contains cs schema2 schema1\<rparr>
       | Json_schema_logic cls ui up schema_items \<Rightarrow>
           k\<lparr>variant := Json_schema_logic cls schema1 schema2 schema_items\<rparr>
       | Json_schema_not ui up schema_list \<Rightarrow>
           k\<lparr>variant := Json_schema_not schema1 schema2 schema_list\<rparr>
       | _ \<Rightarrow> k)"

definition set_unevaluated_item :: "addr \<Rightarrow> addr option \<Rightarrow> unit run" where
  "set_unevaluated_item this schema =
     update_keyword this (\<lambda>k. k\<lparr>unevaluated_items := schema\<rparr>)"

definition set_unevaluated_properties :: "addr \<Rightarrow> addr option \<Rightarrow> unit run" where
  "set_unevaluated_properties this schema =
     update_keyword this (\<lambda>k. k\<lparr>unevaluated_properties := schema\<rparr>)"

fun logic_prop_loop :: "addr list \<Rightarrow> addr option \<Rightarrow> addr option \<Rightarrow> unit run" where
  "logic_prop_loop [] item prop = run_return ()"
| "logic_prop_loop (curr_schema # rest) item prop =
     run_bind (set_unevaluated_item curr_schema item) (\<lambda>_.
     run_bind (set_unevaluated_properties curr_schema prop) (\<lambda>_.
       logic_prop_loop rest item prop))"

text \<open>
  \<^verbatim>\<open>bubble_sort\<close> with \<^verbatim>\<open>sort_by_priority\<close> exchanges two neighbours when the first has
  the greater priority: a stable sort by ascending priority.
\<close>

definition priority_of :: "store \<Rightarrow> addr \<Rightarrow> nat" where
  "priority_of h a = (if a < length h then unat (priority (h ! a)) else 0)"

definition bubble_sort :: "addr list \<Rightarrow> addr list run" where
  "bubble_sort xs = (\<lambda>h. Some (Inr (sort_key (priority_of h) xs), h))"

text \<open>\<^verbatim>\<open>while((curr_schema= it++) && curr_schema->priority > 2) array_prop.pop();\<close>
  removes the head of the list for as long as the iterator meets a priority above 2.\<close>

definition pop_loop :: "addr list \<Rightarrow> addr list run" where
  "pop_loop xs = (\<lambda>h. Some (Inr (dropWhile (\<lambda>a. priority_of h a > 2) xs), h))"

fun array_prop_loop :: "addr list \<Rightarrow> nat \<Rightarrow> addr list \<Rightarrow> unit run" where
  "array_prop_loop array_prop' count [] = run_return ()"
| "array_prop_loop array_prop' count (curr_schema # rest) =
     run_bind (set_alternate_schema curr_schema (elem array_prop' count)) (\<lambda>_.
       array_prop_loop array_prop' (count + 1) rest)"

fun object_prop_loop ::
  "addr list \<Rightarrow> addr option \<Rightarrow> addr option \<Rightarrow> nat \<Rightarrow> addr list \<Rightarrow> unit run" where
  "object_prop_loop object_prop' item prop count [] = run_return ()"
| "object_prop_loop object_prop' item prop count (curr_schema # rest) =
     run_bind (get_keyword curr_schema) (\<lambda>k.
     run_bind (if priority k < 4
               then set_alternate_schema curr_schema (elem object_prop' count)
               else run_return ()) (\<lambda>_.
     run_bind (if priority k = 2
               then run_bind (set_unevaluated_properties curr_schema prop) (\<lambda>_.
                      set_unevaluated_item curr_schema item)
               else run_return ()) (\<lambda>_.
       object_prop_loop object_prop' item prop (count + 1) rest)))"

definition add_schema_interdependence :: "addr list \<Rightarrow> (bool \<times> addr list) compile" where
  "add_schema_interdependence temporary =
     run_bind (on_heap (sort_keywords temporary interdependence_init)) (\<lambda>v.
     run_bind
       (case if_cond v of
          Some i \<Rightarrow>
            if then_cond v = None \<and> else_cond v = None then
              run_bind (my_error ''if'') (\<lambda>_. run_return (True, keyword_list v))
            else
              run_bind (on_heap (set_dependents i (then_cond v) (else_cond v))) (\<lambda>_.
                run_return (False, keyword_list v @ [i]))
        | None \<Rightarrow>
            if (then_cond v \<noteq> None \<or> else_cond v \<noteq> None)
               \<and> (then_cond v = None \<or> else_cond v = None) then
              run_bind (my_error ''if'') (\<lambda>_. run_return (True, keyword_list v))
            else run_return (False, keyword_list v)) (\<lambda>(failed, keyword_list0).
       if failed then run_return (True, keyword_list0)
       else
         on_heap (
           run_bind (logic_prop_loop (logic_prop v) (unevalauted_item v)
                       (unevaluated_prop v)) (\<lambda>_.
           run_bind
             (if array_prop v \<noteq> [] then
                run_bind (bubble_sort (array_prop v)) (\<lambda>sorted.
                run_bind (pop_loop sorted) (\<lambda>array_prop'.
                  if array_prop' \<noteq> [] then
                    run_bind (array_prop_loop array_prop' 1 array_prop') (\<lambda>_.
                      run_return (keyword_list0 @ [hd array_prop']))
                  else run_return keyword_list0))
              else run_return keyword_list0) (\<lambda>keyword_list1.
           run_bind
             (if object_prop v \<noteq> [] then
                run_bind (bubble_sort (object_prop v)) (\<lambda>object_prop'.
                run_bind (object_prop_loop object_prop' (unevalauted_item v)
                            (unevaluated_prop v) 1 object_prop') (\<lambda>_.
                  run_return (keyword_list1 @ [hd object_prop'])))
              else run_return keyword_list1) (\<lambda>keyword_list2.
           run_bind
             (case contains v of
                Some c \<Rightarrow> set_dependents c (min_contains v) (max_contains v)
              | None \<Rightarrow> run_return ()) (\<lambda>_.
             run_return (False, keyword_list2))))))))"

subsection \<open>\<^verbatim>\<open>create_object_and_handle_keyword\<close>\<close>

text \<open>
  The loop over the members at the cursor: \<^verbatim>\<open>create_object\<close>, the push to
  \<^verbatim>\<open>all_keywords\<close>, \<^verbatim>\<open>handle_keyword\<close>, the push to \<^verbatim>\<open>temporary_list\<close>. \<open>inner_last\<close> says
  that no member follows the object either, up to the end of the text being scanned,
  so that the value of its last member is followed by closing braces only.
\<close>

fun members_loop ::
  "externals \<Rightarrow> compile_call \<Rightarrow> bool \<Rightarrow> (string \<times> json) list \<Rightarrow> addr list \<Rightarrow>
   (bool \<times> addr list) compile" where
  "members_loop ext compile inner_last [] temporary_list = run_return (False, temporary_list)"
| "members_loop ext compile inner_last ((key, je) # rest) temporary_list =
     run_bind (new_keyword (create_object ext je key)) (\<lambda>curr_keyword.
     run_bind (\<lambda>s. Some (Inr (), s\<lparr>all_keywords := all_keywords s @ [curr_keyword]\<rparr>)) (\<lambda>_.
     run_bind (handle_keyword ext compile (After_value (inner_last \<and> rest = []))
                 curr_keyword je key) (\<lambda>r.
       if r then run_return (True, temporary_list)
       else members_loop ext compile inner_last rest (temporary_list @ [curr_keyword]))))"

definition create_object_and_handle_keyword ::
  "externals \<Rightarrow> compile_call \<Rightarrow> cursor \<Rightarrow> json \<Rightarrow> (bool \<times> addr list) compile" where
  "create_object_and_handle_keyword ext compile c je =
     run_bind (run_pure (members_at c je)) (\<lambda>ms.
     run_bind (members_loop ext compile (c = New_scan \<or> c = After_value True) ms [])
       (\<lambda>(r, temporary_list).
         if r then run_return (True, [])
         else add_schema_interdependence temporary_list))"

text \<open>The recursion of the compiler, on the depth of nested schemas that may still
  be entered.\<close>

primrec compile_call :: "externals \<Rightarrow> nat \<Rightarrow> compile_call" where
  "compile_call ext 0 = (\<lambda>c je s. None)"
| "compile_call ext (Suc n) = create_object_and_handle_keyword ext (compile_call ext n)"

definition compile_state_init :: compile_state where
  "compile_state_init = \<lparr>heap = [], diagnostics = [], all_keywords = []\<rparr>"

text \<open>
  Modelled from the spec: the caller that compiles a schema document is not among the
  sources. It enters \<^verbatim>\<open>create_object_and_handle_keyword\<close> with a cursor that has read the
  document's value, an empty store and an empty \<^verbatim>\<open>all_keywords\<close>; nothing follows the
  document.
\<close>

definition compile_schema ::
  "externals \<Rightarrow> nat \<Rightarrow> json \<Rightarrow> ((fault + bool \<times> addr list) \<times> compile_state) option" where
  "compile_schema ext n schema = compile_call ext n (After_value True) schema compile_state_init"

section \<open>Vocabulary of the properties\<close>

text \<open>
  The kind of instance a keyword constrains, for the keywords that constrain one kind
  and apply no sub-schema: the kind each \<^verbatim>\<open>validate\<close> compares \<^verbatim>\<open>je->value_type\<close> with
  before anything else.
\<close>

fun keyword_domain :: "variant \<Rightarrow> json_value_types option" where
  "keyword_domain (Json_schema_maximum m) = Some JSON_VALUE_NUMBER"
| "keyword_domain (Json_schema_minimum m) = Some JSON_VALUE_NUMBER"
| "keyword_domain (Json_schema_ex_maximum m) = Some JSON_VALUE_NUMBER"
| "keyword_domain (Json_schema_ex_minimum m) = Some JSON_VALUE_NUMBER"
| "keyword_domain (Json_schema_multiple_of m) = Some JSON_VALUE_NUMBER"
| "keyword_domain (Json_schema_max_len n) = Some JSON_VALUE_STRING"
| "keyword_domain (Json_schema_min_len n) = Some JSON_VALUE_STRING"
| "keyword_domain (Json_schema_pattern p) = Some JSON_VALUE_STRING"
| "keyword_domain (Json_schema_max_items n) = Some JSON_VALUE_ARRAY"
| "keyword_domain (Json_schema_min_items n) = Some JSON_VALUE_ARRAY"
| "keyword_domain (Json_schema_unique_items b) = Some JSON_VALUE_ARRAY"
| "keyword_domain (Json_schema_max_prop n) = Some JSON_VALUE_OBJECT"
| "keyword_domain (Json_schema_min_prop n) = Some JSON_VALUE_OBJECT"
| "keyword_domain (Json_schema_required rs) = Some JSON_VALUE_OBJECT"
| "keyword_domain (Json_schema_dependent_prop ds) = Some JSON_VALUE_OBJECT"
| "keyword_domain v = None"

text \<open>
  An instance of the parameters, for evaluating the model on concrete inputs: the kinds
  numbered from 1 in the order of their declaration, \<^verbatim>\<open>TRUE\<close> as 1, a normaliser that
  knows strings and the three literals, the six type names of JSON, and a matcher that
  takes a pattern as literal text.
\<close>

definition sample_value_type_code :: "json_value_types \<Rightarrow> nat" where
  "sample_value_type_code t =
     (case t of
        JSON_VALUE_OBJECT \<Rightarrow> 1 | JSON_VALUE_ARRAY \<Rightarrow> 2 | JSON_VALUE_STRING \<Rightarrow> 3
      | JSON_VALUE_NUMBER \<Rightarrow> 4 | JSON_VALUE_TRUE \<Rightarrow> 5 | JSON_VALUE_FALSE \<Rightarrow> 6
      | JSON_VALUE_NULL \<Rightarrow> 7)"

definition sample_normalized_string :: "json \<Rightarrow> string option" where
  "sample_normalized_string je =
     (case je of
        JString s \<Rightarrow> Some (CHR 0x22 # s @ [CHR 0x22])
      | JTrue \<Rightarrow> Some ''true''
      | JFalse \<Rightarrow> Some ''false''
      | JNull \<Rightarrow> Some ''null''
      | _ \<Rightarrow> None)"

definition sample_assign_type :: "uint \<Rightarrow> json \<Rightarrow> uint \<times> bool" where
  "sample_assign_type curr_type je =
     (if je = JString ''number'' then (curr_type OR push_bit 4 1, False)
      else if je = JString ''string'' then (curr_type OR push_bit 3 1, False)
      else if je = JString ''array'' then (curr_type OR push_bit 2 1, False)
      else if je = JString ''object'' then (curr_type OR push_bit 1 1, False)
      else if je = JString ''boolean''
        then (curr_type OR push_bit 5 1 OR push_bit 6 1, False)
      else if je = JString ''null'' then (curr_type OR push_bit 7 1, False)
      else (curr_type, True))"

definition sample_externals :: externals where
  "sample_externals =
     \<lparr>value_type_code = sample_value_type_code, TRUE_macro = 1,
      json_get_normalized_string = sample_normalized_string,
      json_assign_type = sample_assign_type,
      regexp_match = (\<lambda>pattern subject. Some (pattern = subject))\<rparr>"

subsection \<open>Example schemas\<close>

text \<open>
  Schemas and instances the properties are evaluated on, each schema with the store
  its compilation builds.
\<close>

definition contains_schema :: json where
  "contains_schema = JObject [(''contains'', JObject [(''minimum'', JNumber 5)])]"

definition contains_store :: store where
  "contains_store =
     [construct ''contains'' (Json_schema_contains [1] None None),
      construct ''minimum'' (Json_schema_minimum 5)]"

definition conditional_schema :: json where
  "conditional_schema =
     JObject
       [(''if'', JObject [(''properties'', JObject [(''k'', JObject [(''const'', JString ''A'')])]),
                          (''required'', JArray [JString ''k''])]),
        (''then'', JObject [(''required'', JArray [JString ''x''])]),
        (''else'', JObject [(''required'', JArray [JString ''y''])])]"

definition conditional_store :: store where
  "conditional_store =
     [construct ''if'' (Json_schema_conditional Class_if [3, 1] None (Some 4) None),
      (construct ''properties'' (Json_schema_properties [(''k'', [2])]))\<lparr>priority := 1\<rparr>,
      construct ''const'' (Json_schema_const (Some ''A'') JSON_VALUE_STRING),
      construct ''required'' (Json_schema_required [''k'']),
      construct ''then'' (Json_schema_conditional Class_then [5] None None None),
      construct ''required'' (Json_schema_required [''x'']),
      construct ''else'' (Json_schema_conditional Class_else [7] None None None),
      construct ''required'' (Json_schema_required [''y''])]"

definition additional_schema :: json where
  "additional_schema =
     JObject [(''properties'', JObject [(''a'', JObject [])]), (''additionalProperties'', JTrue)]"

definition additional_store :: store where
  "additional_store =
     [(construct ''properties'' (Json_schema_properties [(''a'', [])]))
        \<lparr>alternate_schema := Some 1, priority := 1\<rparr>,
      (construct ''additionalProperties'' (Json_schema_additional_properties []))
        \<lparr>priority := 3, allowed := False\<rparr>]"

definition not_schema :: json where
  "not_schema =
     JObject [(''not'', JObject [(''minimum'', JNumber 5), (''maximum'', JNumber 10)])]"

definition not_store :: store where
  "not_store =
     [construct ''not'' (Json_schema_not None None [1, 2]),
      construct ''minimum'' (Json_schema_minimum 5),
      construct ''maximum'' (Json_schema_maximum 10)]"

definition not_items_schema :: json where
  "not_items_schema =
     JObject [(''not'', JObject [(''prefixItems'', JArray [JObject []]),
                                 (''items'', JObject [(''minimum'', JNumber 1)])])]"

definition not_items_store :: store where
  "not_items_store =
     [construct ''not'' (Json_schema_not None None [1]),
      (construct ''prefixItems'' (Json_schema_prefix_items [[]]))
        \<lparr>alternate_schema := Some 2, priority := 1\<rparr>,
      (construct ''items'' (Json_schema_items None [3]))\<lparr>priority := 2\<rparr>,
      construct ''minimum'' (Json_schema_minimum 1)]"

definition all_of_schema :: json where
  "all_of_schema =
     JObject [(''allOf'', JArray [JObject [(''minItems'', JNumber 0),
                                           (''prefixItems'', JArray [JObject []]),
                                           (''items'', JObject [(''minimum'', JNumber 1)])]])]"

definition all_of_store :: store where
  "all_of_store =
     [construct ''allOf'' (Json_schema_logic Class_all_of None None [[1, 2]]),
      construct ''minItems'' (Json_schema_min_items 0),
      (construct ''prefixItems'' (Json_schema_prefix_items [[]]))
        \<lparr>alternate_schema := Some 3, priority := 1\<rparr>,
      (construct ''items'' (Json_schema_items None [4]))\<lparr>priority := 2\<rparr>,
      construct ''minimum'' (Json_schema_minimum 1)]"

section \<open>Properties\<close>

lemmas run_defs = run_bind_def run_return_def run_fault_def run_pure_def get_keyword_def
  update_keyword_def set_alternate_schema_def

lemmas leaf_validate_defs =
  Json_schema_maximum_validate_def Json_schema_minimum_validate_def
  Json_schema_ex_maximum_validate_def Json_schema_ex_minimum_validate_def
  Json_schema_multiple_of_validate_def Json_schema_max_len_validate_def
  Json_schema_min_len_validate_def Json_schema_pattern_validate_def
  Json_schema_max_items_validate_def Json_schema_min_items_validate_def
  Json_schema_unique_items_validate_def Json_schema_max_prop_validate_def
  Json_schema_min_prop_validate_def Json_schema_required_validate_def
  Json_schema_dependent_prop_validate_def

lemmas compile_defs = compile_schema_def compile_state_init_def
  create_object_and_handle_keyword_def members_at_def handle_keyword_def on_heap_def
  new_keyword_def set_variant_def my_error_def add_schema_interdependence_def
  interdependence_init_def sort_keyword_def strncmp_eq_def create_object_def construct_def

subsection \<open>\<^verbatim>\<open>contains\<close>\<close>

text \<open>
  C1 says that \<^verbatim>\<open>Json_schema_contains::validate\<close> succeeds exactly when the number of
  array elements that satisfy the \<^verbatim>\<open>contains\<close> sub-schema lies between \<^verbatim>\<open>minContains\<close>
  (1 when absent) and \<^verbatim>\<open>maxContains\<close> (unbounded when absent). The code on the schema
  \<^verbatim>\<open>{"contains":{"minimum":5}}\<close> and the instance \<^verbatim>\<open>[1]\<close>: the schema compiles to
  \<open>contains_store\<close>; the only element, 1, is rejected by the sub-schema, so no element
  satisfies it; and \<^verbatim>\<open>contains\<close> accepts the array, because its loop hands the array
  itself to \<^verbatim>\<open>minimum\<close>, which accepts what is not a number.
\<close>

theorem contains_counts_keywords_on_the_array:
  "compile_schema ext 2 contains_schema =
     Some (Inr (False, [0]),
           \<lparr>heap = contains_store, diagnostics = [], all_keywords = [0, 1]\<rparr>)
   \<and> validate_each (call ext 1) (JNumber 1) [] [1] contains_store
       = Some (Inr True, contains_store)
   \<and> validate_schema ext 2 [0] (JArray [JNumber 1]) contains_store
       = Some (Inr False, contains_store)"
  by code_simp

theorem contains_counts_keywords_on_the_array_witness:
  "compile_schema sample_externals 2 contains_schema =
     Some (Inr (False, [0]),
           \<lparr>heap = contains_store, diagnostics = [], all_keywords = [0, 1]\<rparr>)
   \<and> validate_each (call sample_externals 1) (JNumber 1) [] [1] contains_store
       = Some (Inr True, contains_store)
   \<and> validate_schema sample_externals 2 [0] (JArray [JNumber 1]) contains_store
       = Some (Inr False, contains_store)"
  using contains_counts_keywords_on_the_array [of sample_externals] .

subsection \<open>\<^verbatim>\<open>if\<close>, \<^verbatim>\<open>then\<close>, \<^verbatim>\<open>else\<close>\<close>

text \<open>When the \<^verbatim>\<open>if\<close> schema accepts and there is no \<^verbatim>\<open>then\<close>, and when it rejects and
  there is no \<^verbatim>\<open>else\<close>, \<^verbatim>\<open>Json_schema_conditional::validate\<close> returns \<^verbatim>\<open>true\<close>.\<close>

lemma conditional_absent_branch_rejects:
  assumes "vcall Validate i je key h = Some (Inr r, h')"
    and "if r then e = None else t = None"
  shows "Json_schema_conditional_validate vcall (Some i) t e je key h
           = Some (Inr True, h')"
  using assms by (simp add: Json_schema_conditional_validate_def run_defs split: if_splits)

text \<open>
  C2 says that the conditional validates \<^verbatim>\<open>then\<close> when \<^verbatim>\<open>if\<close> passes and \<^verbatim>\<open>else\<close> when it
  fails, an absent branch succeeding, and that the schema
  \<^verbatim>\<open>{"if":{"properties":{"k":{"const":"A"}},"required":["k"]},"then":{"required":["x"]},
  "else":{"required":["y"]}}\<close> accepts \<^verbatim>\<open>{"k":"B","y":1}\<close>. The code on that schema and
  that instance: the schema compiles to \<open>conditional_store\<close>, in which the \<^verbatim>\<open>if\<close> keyword
  has \<^verbatim>\<open>then_cond\<close> set, \<^verbatim>\<open>else_cond\<close> null (the \<^verbatim>\<open>else\<close> keyword is compared with
  \<^verbatim>\<open>"then"\<close> and dropped) and \<^verbatim>\<open>if_cond\<close> null (nothing assigns it); validation calls
  \<^verbatim>\<open>validate\<close> through the null \<^verbatim>\<open>if_cond\<close>.
\<close>

theorem conditional_example_dereferences_null:
  "compile_schema ext 4 conditional_schema =
     Some (Inr (False, [0]),
           \<lparr>heap = conditional_store, diagnostics = [],
            all_keywords = [0, 1, 2, 3, 4, 5, 6, 7]\<rparr>)
   \<and> validate_schema ext 5 [0] (JObject [(''k'', JString ''B''), (''y'', JNumber 1)])
         conditional_store
       = Some (Inl Null_pointer_dereference, conditional_store)"
  by code_simp

theorem conditional_example_dereferences_null_witness:
  "compile_schema sample_externals 4 conditional_schema =
     Some (Inr (False, [0]),
           \<lparr>heap = conditional_store, diagnostics = [],
            all_keywords = [0, 1, 2, 3, 4, 5, 6, 7]\<rparr>)
   \<and> validate_schema sample_externals 5 [0]
         (JObject [(''k'', JString ''B''), (''y'', JNumber 1)]) conditional_store
       = Some (Inl Null_pointer_dereference, conditional_store)"
  using conditional_example_dereferences_null [of sample_externals] .

subsection \<open>The fall-back chain\<close>

text \<open>
  \<^verbatim>\<open>fall_back_on_alternate_schema\<close>: a value is accepted when the keyword has no
  alternate, rejected when the alternate's \<^verbatim>\<open>allowed\<close> is false, and left to the
  alternate's \<^verbatim>\<open>validate_as_alternate\<close> otherwise.
\<close>

lemma fall_back_without_alternate:
  assumes "this < length h" and "alternate_schema (h ! this) = None"
  shows "fall_back_on_alternate_schema vcall this je key h = Some (Inr False, h)"
  using assms by (simp add: fall_back_on_alternate_schema_def run_defs)

lemma fall_back_not_allowed:
  assumes "this < length h" and "alternate_schema (h ! this) = Some alt"
    and "alt < length h" and "\<not> allowed (h ! alt)"
  shows "fall_back_on_alternate_schema vcall this je key h = Some (Inr True, h)"
  using assms by (simp add: fall_back_on_alternate_schema_def run_defs)

lemma fall_back_allowed:
  assumes "this < length h" and "alternate_schema (h ! this) = Some alt"
    and "alt < length h" and "allowed (h ! alt)"
    and "vcall Validate_as_alternate alt je key h = Some (Inr r, h')"
  shows "fall_back_on_alternate_schema vcall this je key h = Some (Inr r, h')"
  using assms by (simp add: fall_back_on_alternate_schema_def run_defs)

text \<open>What \<^verbatim>\<open>create_object\<close> computes for \<^verbatim>\<open>allowed\<close> from the kind of the argument.\<close>

lemma create_object_allowed:
  "allowed (create_object ext je ''additionalProperties'')
     = (value_type_code ext (value_type je) = TRUE_macro ext)"
  "allowed (create_object ext je ''additionalItems'')
     = (value_type_code ext (value_type je) = TRUE_macro ext)"
  "allowed (create_object ext je ''unevaluatedItems'')
     = (value_type_code ext (value_type je) = TRUE_macro ext)"
  "allowed (create_object ext je ''unevaluatedProperties'') = (value_type je = JSON_VALUE_TRUE)"
  by (simp_all add: create_object_def construct_def)

lemma additional_schema_compiles:
  assumes "value_type_code ext JSON_VALUE_TRUE \<noteq> TRUE_macro ext"
  shows "compile_schema ext (Suc (Suc n)) additional_schema =
     Some (Inr (False, [0]),
           \<lparr>heap = additional_store, diagnostics = [], all_keywords = [0, 1]\<rparr>)"
  using assms
  by (simp add: additional_schema_def additional_store_def compile_defs run_defs
      Json_schema_properties_handle_keyword_def
      Json_schema_additional_and_unevaluated_handle_keyword_def
      set_dependents_def set_unevaluated_item_def set_unevaluated_properties_def
      bubble_sort_def pop_loop_def priority_of_def elem_def)

lemma additional_store_rejects:
  "validate_schema ext 3 [0] (JObject [(''b'', JNumber 1)]) additional_store =
     Some (Inr True, additional_store)"
  by code_simp

text \<open>
  C3 says that a property no applicator of the chain captures is accepted exactly when
  the last applicator's \<^verbatim>\<open>allowed\<close> is true, and that \<^verbatim>\<open>allowed\<close> is false exactly when
  the applicator's argument is the boolean \<^verbatim>\<open>false\<close>, so that \<^verbatim>\<open>additionalProperties\<close>
  given \<^verbatim>\<open>true\<close> stays permissive. The code on the schema
  \<^verbatim>\<open>{"properties":{"a":{}},"additionalProperties":true}\<close> and the instance \<^verbatim>\<open>{"b":1}\<close>,
  for every numbering of the kinds in which \<^verbatim>\<open>JSON_VALUE_TRUE\<close> is not the number \<^verbatim>\<open>TRUE\<close>:
  the schema compiles to \<open>additional_store\<close>, where \<^verbatim>\<open>additionalProperties\<close> has
  \<^verbatim>\<open>allowed\<close> false, and the instance is rejected.
\<close>

theorem additional_properties_true_rejects:
  assumes "value_type_code ext JSON_VALUE_TRUE \<noteq> TRUE_macro ext"
  shows "compile_schema ext (Suc (Suc n)) additional_schema =
           Some (Inr (False, [0]),
                 \<lparr>heap = additional_store, diagnostics = [], all_keywords = [0, 1]\<rparr>)
         \<and> allowed (additional_store ! 1) = False
         \<and> validate_schema ext 3 [0] (JObject [(''b'', JNumber 1)]) additional_store
             = Some (Inr True, additional_store)"
  using additional_schema_compiles [OF assms] additional_store_rejects
  by (simp add: additional_store_def)

theorem additional_properties_true_rejects_witness:
  "compile_schema sample_externals 2 additional_schema =
     Some (Inr (False, [0]),
           \<lparr>heap = additional_store, diagnostics = [], all_keywords = [0, 1]\<rparr>)
   \<and> allowed (additional_store ! 1) = False
   \<and> validate_schema sample_externals 3 [0] (JObject [(''b'', JNumber 1)]) additional_store
       = Some (Inr True, additional_store)"
  using additional_properties_true_rejects [of sample_externals 0]
  by (simp add: sample_externals_def sample_value_type_code_def numeral_2_eq_2)

subsection \<open>A keyword leaves the other kinds alone\<close>

lemma virtual_validate_other_kind:
  assumes "keyword_domain (variant k) = Some X" and "value_type je \<noteq> X"
    and "a < length h" and "h ! a = k"
  shows "virtual_validate ext vcall a je key h = Some (Inr False, h)"
  using assms
  by (cases "variant k"; cases je; simp add: virtual_validate_def run_defs leaf_validate_defs)

text \<open>
  C4. A keyword that constrains one kind of value and applies no sub-schema (\<^verbatim>\<open>minimum\<close>,
  \<^verbatim>\<open>maximum\<close>, \<^verbatim>\<open>exclusiveMinimum\<close>, \<^verbatim>\<open>exclusiveMaximum\<close>, \<^verbatim>\<open>multipleOf\<close>, \<^verbatim>\<open>maxLength\<close>,
  \<^verbatim>\<open>minLength\<close>, \<^verbatim>\<open>pattern\<close>, \<^verbatim>\<open>maxItems\<close>, \<^verbatim>\<open>minItems\<close>, \<^verbatim>\<open>uniqueItems\<close>,
  \<^verbatim>\<open>maxProperties\<close>, \<^verbatim>\<open>minProperties\<close>, \<^verbatim>\<open>required\<close>, \<^verbatim>\<open>dependentRequired\<close>) accepts every
  instance of another kind: its \<^verbatim>\<open>validate\<close> returns \<^verbatim>\<open>false\<close> and leaves the compiled
  schema as it was.
\<close>

theorem kind_mismatch_is_accepted:
  assumes "keyword_domain (variant k) = Some X" and "value_type je \<noteq> X"
    and "a < length h" and "h ! a = k"
  shows "call ext (Suc n) Validate a je key h = Some (Inr False, h)"
  using virtual_validate_other_kind [OF assms] by simp

theorem kind_mismatch_is_accepted_witness:
  "call sample_externals 1 Validate 0 (JString ''abc'') []
       [construct ''minimum'' (Json_schema_minimum 3)]
     = Some (Inr False, [construct ''minimum'' (Json_schema_minimum 3)])"
  using kind_mismatch_is_accepted [of "construct ''minimum'' (Json_schema_minimum 3)"
      JSON_VALUE_NUMBER "JString ''abc''" 0 "[construct ''minimum'' (Json_schema_minimum 3)]"
      sample_externals 0 "[]"]
  by (simp add: construct_def)

subsection \<open>The conditional group at compile time\<close>

text \<open>An \<^verbatim>\<open>if\<close> with no branch, and a \<^verbatim>\<open>then\<close> with no \<^verbatim>\<open>if\<close>, fail to compile and are
  reported under the name \<^verbatim>\<open>if\<close>.\<close>

lemma lone_if_fails:
  "compile_schema ext 2 (JObject [(''if'', JObject [])]) =
     Some (Inr (True, []),
           \<lparr>heap = [construct ''if'' (Json_schema_conditional Class_if [] None None None)],
            diagnostics = [''if''], all_keywords = [0]\<rparr>)"
  by code_simp

lemma lone_then_fails:
  "compile_schema ext 2 (JObject [(''then'', JObject [])]) =
     Some (Inr (True, []),
           \<lparr>heap = [construct ''then'' (Json_schema_conditional Class_then [] None None None)],
            diagnostics = [''if''], all_keywords = [0]\<rparr>)"
  by code_simp

text \<open>
  C5 says that \<^verbatim>\<open>if\<close> with neither branch fails to compile, and that a \<^verbatim>\<open>then\<close> or an
  \<^verbatim>\<open>else\<close> with no \<^verbatim>\<open>if\<close> beside it fails too. The code on the schema \<^verbatim>\<open>{"else":{}}\<close>:
  \<^verbatim>\<open>create_object_and_handle_keyword\<close> returns \<^verbatim>\<open>false\<close>, reports nothing and leaves the
  keyword list empty.
\<close>

theorem lone_else_compiles:
  "compile_schema ext 2 (JObject [(''else'', JObject [])]) =
     Some (Inr (False, []),
           \<lparr>heap = [construct ''else'' (Json_schema_conditional Class_else [] None None None)],
            diagnostics = [], all_keywords = [0]\<rparr>)"
  by code_simp

theorem lone_else_compiles_witness:
  "compile_schema sample_externals 2 (JObject [(''else'', JObject [])]) =
     Some (Inr (False, []),
           \<lparr>heap = [construct ''else'' (Json_schema_conditional Class_else [] None None None)],
            diagnostics = [], all_keywords = [0]\<rparr>)"
  using lone_else_compiles [of sample_externals] .

subsection \<open>\<^verbatim>\<open>not\<close>\<close>

text \<open>
  C6 says that \<^verbatim>\<open>not\<close> accepts an instance exactly when its sub-schema rejects it, that
  is when at least one keyword of the sub-schema rejects it. The code on the schema
  \<^verbatim>\<open>{"not":{"minimum":5,"maximum":10}}\<close> and the instance \<^verbatim>\<open>3\<close>: the schema compiles to
  \<open>not_store\<close>; the sub-schema rejects 3 (at \<^verbatim>\<open>minimum\<close>); and \<^verbatim>\<open>not\<close> rejects 3 as well,
  because \<^verbatim>\<open>maximum\<close> accepts it and the count of accepting keywords is not zero.
\<close>

theorem not_rejects_what_its_schema_rejects:
  "compile_schema ext 2 not_schema =
     Some (Inr (False, [0]),
           \<lparr>heap = not_store, diagnostics = [], all_keywords = [0, 1, 2]\<rparr>)
   \<and> validate_each (call ext 1) (JNumber 3) [] [1, 2] not_store = Some (Inr True, not_store)
   \<and> validate_schema ext 2 [0] (JNumber 3) not_store = Some (Inr True, not_store)"
  by code_simp

theorem not_rejects_what_its_schema_rejects_witness:
  "compile_schema sample_externals 2 not_schema =
     Some (Inr (False, [0]),
           \<lparr>heap = not_store, diagnostics = [], all_keywords = [0, 1, 2]\<rparr>)
   \<and> validate_each (call sample_externals 1) (JNumber 3) [] [1, 2] not_store
       = Some (Inr True, not_store)
   \<and> validate_schema sample_externals 2 [0] (JNumber 3) not_store
       = Some (Inr True, not_store)"
  using not_rejects_what_its_schema_rejects [of sample_externals] .

subsection \<open>\<^verbatim>\<open>uniqueItems\<close>\<close>

lemma unique_items_scan_literals:
  "list_all (\<lambda>e. (value_type e = JSON_VALUE_TRUE \<or> value_type e = JSON_VALUE_FALSE
                     \<or> value_type e = JSON_VALUE_NULL)
                  \<and> json_get_normalized_string ext e \<noteq> None) es
   \<Longrightarrow> unique_items_scan ext seen es = False"
  by (induction es arbitrary: seen) (auto simp: Let_def split: option.splits)

text \<open>
  C7 says that \<^verbatim>\<open>uniqueItems\<close> fails exactly when two elements have the same canonical
  form, booleans and null being tracked by flag bits, so that an array with two
  \<^verbatim>\<open>true\<close>, two \<^verbatim>\<open>false\<close> or two \<^verbatim>\<open>null\<close> fails. The code: an array all of whose elements
  are \<^verbatim>\<open>true\<close>, \<^verbatim>\<open>false\<close> or \<^verbatim>\<open>null\<close> (and are normalised without error) is accepted,
  however often an element occurs.
\<close>

theorem unique_items_accepts_repeated_literals:
  assumes "list_all (\<lambda>e. (value_type e = JSON_VALUE_TRUE \<or> value_type e = JSON_VALUE_FALSE
                            \<or> value_type e = JSON_VALUE_NULL)
                         \<and> json_get_normalized_string ext e \<noteq> None) es"
    and "a < length h" and "variant (h ! a) = Json_schema_unique_items is_unique"
  shows "call ext (Suc n) Validate a (JArray es) key h = Some (Inr False, h)"
  using assms(2,3) unique_items_scan_literals [OF assms(1), of "[]"]
  by (simp add: virtual_validate_def run_defs Json_schema_unique_items_validate_def)

theorem unique_items_accepts_repeated_literals_witness:
  "call sample_externals 1 Validate 0 (JArray [JTrue, JTrue]) []
       [construct ''uniqueItems'' (Json_schema_unique_items True)]
     = Some (Inr False, [construct ''uniqueItems'' (Json_schema_unique_items True)])"
  using unique_items_accepts_repeated_literals [of sample_externals "[JTrue, JTrue]" 0
      "[construct ''uniqueItems'' (Json_schema_unique_items True)]" True 0 "[]"]
  by (simp add: construct_def sample_externals_def sample_normalized_string_def)

subsection \<open>What a combinator leaves in its children\<close>

text \<open>
  C8 says that after a combinator has validated an instance every child keyword has
  the \<^verbatim>\<open>alternate_schema\<close> it had before. The code on two schemas and the instance
  \<^verbatim>\<open>[1,2]\<close>. \<^verbatim>\<open>{"not":{"prefixItems":[{}],"items":{"minimum":1}}}\<close> compiles to
  \<open>not_items_store\<close>, where \<^verbatim>\<open>prefixItems\<close> (at 1) has \<^verbatim>\<open>items\<close> (at 2) for alternate;
  after \<^verbatim>\<open>not\<close> has validated the instance, \<^verbatim>\<open>prefixItems\<close> has none.
  \<^verbatim>\<open>{"allOf":[{"minItems":0,"prefixItems":[{}],"items":{"minimum":1}}]}\<close> compiles to
  \<open>all_of_store\<close>, where \<^verbatim>\<open>prefixItems\<close> (at 2) has \<^verbatim>\<open>items\<close> (at 3) for alternate; after
  \<^verbatim>\<open>allOf\<close> has validated the instance, \<^verbatim>\<open>prefixItems\<close> has none (and \<^verbatim>\<open>items\<close> has
  counted two elements in \<^verbatim>\<open>index\<close>).
\<close>

theorem combinators_clear_alternate_of_child:
  "compile_schema ext 4 not_items_schema =
     Some (Inr (False, [0]),
           \<lparr>heap = not_items_store, diagnostics = [], all_keywords = [0, 1, 2, 3]\<rparr>)
   \<and> alternate_schema (not_items_store ! 1) = Some 2
   \<and> validate_schema ext 6 [0] (JArray [JNumber 1, JNumber 2]) not_items_store
       = Some (Inr True,
               not_items_store[1 := (not_items_store ! 1)\<lparr>alternate_schema := None\<rparr>])
   \<and> compile_schema ext 4 all_of_schema =
       Some (Inr (False, [0]),
             \<lparr>heap = all_of_store, diagnostics = [], all_keywords = [0, 1, 2, 3, 4]\<rparr>)
   \<and> alternate_schema (all_of_store ! 2) = Some 3
   \<and> validate_schema ext 6 [0] (JArray [JNumber 1, JNumber 2]) all_of_store
       = Some (Inr False,
               all_of_store[2 := (all_of_store ! 2)\<lparr>alternate_schema := None\<rparr>,
                            3 := (all_of_store ! 3)\<lparr>index := 2\<rparr>])"
  by code_simp

theorem combinators_clear_alternate_of_child_witness:
  "compile_schema sample_externals 4 not_items_schema =
     Some (Inr (False, [0]),
           \<lparr>heap = not_items_store, diagnostics = [], all_keywords = [0, 1, 2, 3]\<rparr>)
   \<and> alternate_schema (not_items_store ! 1) = Some 2
   \<and> validate_schema sample_externals 6 [0] (JArray [JNumber 1, JNumber 2]) not_items_store
       = Some (Inr True,
               not_items_store[1 := (not_items_store ! 1)\<lparr>alternate_schema := None\<rparr>])
   \<and> compile_schema sample_externals 4 all_of_schema =
       Some (Inr (False, [0]),
             \<lparr>heap = all_of_store, diagnostics = [], all_keywords = [0, 1, 2, 3, 4]\<rparr>)
   \<and> alternate_schema (all_of_store ! 2) = Some 3
   \<and> validate_schema sample_externals 6 [0] (JArray [JNumber 1, JNumber 2]) all_of_store
       = Some (Inr False,
               all_of_store[2 := (all_of_store ! 2)\<lparr>alternate_schema := None\<rparr>,
                            3 := (all_of_store ! 3)\<lparr>index := 2\<rparr>])"
  using combinators_clear_alternate_of_child [of sample_externals] .

subsection \<open>Arguments of the wrong kind, and invalid values\<close>

text \<open>
  The schemas of this subsection have one member, which is the last of the document.
  In \<^verbatim>\<open>Json_schema_multiple_of::handle_keyword\<close> the test of the kind reports and
  returns \<^verbatim>\<open>true\<close>, and the compile stops there.
\<close>

lemma wrong_kind_multiple_of_aborts:
  "\<exists>s'. compile_schema ext (Suc n) (JObject [(''multipleOf'', JString ''3'')]) =
          Some (Inr (True, []), s')
        \<and> diagnostics s' = [''multipleOf'']"
  by (simp add: compile_defs run_defs Json_schema_multiple_of_handle_keyword_def)

text \<open>The test of the sign in the same function reports and goes on to the assignment
  and to \<^verbatim>\<open>return false\<close>.\<close>

lemma negative_multiple_of_is_kept:
  assumes "v < 0"
  shows "compile_schema ext (Suc n) (JObject [(''multipleOf'', JNumber v)]) =
           Some (Inr (False, [0]),
                 \<lparr>heap = [construct ''multipleOf'' (Json_schema_multiple_of v)],
                  diagnostics = [''multipleOf''], all_keywords = [0]\<rparr>)"
  using assms
  by (simp add: compile_defs run_defs Json_schema_multiple_of_handle_keyword_def)

text \<open>The six unsigned bounds: \<^verbatim>\<open>if (val < 0) my_error(...); max_len= (int)val;\<close> with
  \<^verbatim>\<open>uint max_len\<close>, and the like. The bound kept for \<open>- 1\<close> is \<open>2 ^ 32 - 1\<close>.\<close>

lemma negative_bounds_are_kept:
  "compile_schema ext (Suc n) (JObject [(''maxLength'', JNumber (- 1))]) =
     Some (Inr (False, [0]),
           \<lparr>heap = [construct ''maxLength'' (Json_schema_max_len 4294967295)],
            diagnostics = [''maxLength''], all_keywords = [0]\<rparr>)
   \<and> compile_schema ext (Suc n) (JObject [(''minLength'', JNumber (- 1))]) =
     Some (Inr (False, [0]),
           \<lparr>heap = [construct ''minLength'' (Json_schema_min_len 4294967295)],
            diagnostics = [''minLength''], all_keywords = [0]\<rparr>)
   \<and> compile_schema ext (Suc n) (JObject [(''maxItems'', JNumber (- 1))]) =
     Some (Inr (False, [0]),
           \<lparr>heap = [construct ''maxItems'' (Json_schema_max_items 4294967295)],
            diagnostics = [''maxItems''], all_keywords = [0]\<rparr>)
   \<and> compile_schema ext (Suc n) (JObject [(''minItems'', JNumber (- 1))]) =
     Some (Inr (False, [0]),
           \<lparr>heap = [construct ''minItems'' (Json_schema_min_items 4294967295)],
            diagnostics = [''maxLength''], all_keywords = [0]\<rparr>)
   \<and> compile_schema ext (Suc n) (JObject [(''maxProperties'', JNumber (- 1))]) =
     Some (Inr (False, [0]),
           \<lparr>heap = [construct ''maxProperties'' (Json_schema_max_prop 4294967295)],
            diagnostics = [''maxProperties''], all_keywords = [0]\<rparr>)
   \<and> compile_schema ext (Suc n) (JObject [(''minProperties'', JNumber (- 1))]) =
     Some (Inr (False, [0]),
           \<lparr>heap = [construct ''minProperties'' (Json_schema_min_prop 4294967295)],
            diagnostics = [''minProperties''], all_keywords = [0]\<rparr>)"
  by (simp add: compile_defs run_defs handle_unsigned_bound_def double_to_int_def
      ceiling_minus Json_schema_max_len_handle_keyword_def
      Json_schema_min_len_handle_keyword_def Json_schema_max_items_handle_keyword_def
      Json_schema_min_items_handle_keyword_def Json_schema_max_prop_handle_keyword_def
      Json_schema_min_prop_handle_keyword_def)

text \<open>\<^verbatim>\<open>create_object\<close> makes a \<^verbatim>\<open>Json_schema_format\<close> for the key \<^verbatim>\<open>date\<close>, as for the
  other names of formats, and the base class for the key \<^verbatim>\<open>format\<close>, which it does not
  know.\<close>

lemma number_for_date_is_kept:
  "compile_schema ext (Suc n) (JObject [(''date'', JNumber 5)]) =
     Some (Inr (False, [0]),
           \<lparr>heap = [construct ''format'' Json_schema_format],
            diagnostics = [''format''], all_keywords = [0]\<rparr>)"
  by (simp add: compile_defs run_defs Json_schema_format_handle_keyword_def leave_value_def
      json_value_scalar_def annotation_names_def format_names_def)

lemma number_for_format_is_silent:
  "compile_schema ext (Suc n) (JObject [(''format'', JNumber 5)]) =
     Some (Inr (False, [0]),
           \<lparr>heap = [construct [] Json_schema_keyword_base],
            diagnostics = [], all_keywords = [0]\<rparr>)"
  by (simp add: compile_defs run_defs Json_schema_keyword_handle_keyword_def leave_value_def
      json_value_scalar_def annotation_names_def format_names_def)

text \<open>\<^verbatim>\<open>Json_schema_not::handle_keyword\<close> has no test of the kind: on a number the loop of
  \<^verbatim>\<open>create_object_and_handle_keyword\<close> meets no key.\<close>

lemma number_for_not_is_silent:
  "compile_schema ext (Suc (Suc n)) (JObject [(''not'', JNumber 5)]) =
     Some (Inr (False, [0]),
           \<lparr>heap = [construct ''not'' (Json_schema_not None None [])],
            diagnostics = [], all_keywords = [0]\<rparr>)"
  by (simp add: compile_defs run_defs Json_schema_not_handle_keyword_def
      set_dependents_def set_unevaluated_item_def set_unevaluated_properties_def
      bubble_sort_def pop_loop_def priority_of_def elem_def)

text \<open>\<^verbatim>\<open>Json_schema_items::handle_keyword\<close> drops the result of the prefix list, so the
  failure of \<^verbatim>\<open>maximum\<close> inside the array does not reach the compile.\<close>

lemma wrong_kind_under_items_is_dropped:
  "\<exists>s'. compile_schema ext (Suc (Suc n))
            (JObject [(''items'', JArray [JObject [(''maximum'', JString ''3'')]])]) =
          Some (Inr (False, [0]), s')
        \<and> diagnostics s' = [''maximum'']"
  by (simp add: compile_defs run_defs Json_schema_items_handle_keyword_def
      Json_schema_prefix_items_handle_keyword_def Json_schema_maximum_handle_keyword_def
      elements_left_def
      set_dependents_def set_unevaluated_item_def set_unevaluated_properties_def
      bubble_sort_def pop_loop_def priority_of_def elem_def)

text \<open>
  C9 says that a keyword whose argument has the wrong kind or an invalid value (a
  non-number \<^verbatim>\<open>maximum\<close>, a negative \<^verbatim>\<open>multipleOf\<close>, a non-string format argument) is
  reported under its name and that \<^verbatim>\<open>handle_keyword\<close>, and with it the compile, returns
  failure. The result of a compile is \<open>(res, keyword_list)\<close> with the state it leaves;
  \<open>res\<close> is \<^verbatim>\<open>true\<close> for a failure. The code, on schemas of one member:

  \<^item> \<^verbatim>\<open>{"multipleOf":"3"}\<close> is reported as \<^verbatim>\<open>multipleOf\<close> and the compile fails;
  \<^item> \<^verbatim>\<open>{"multipleOf":v}\<close> with \<open>v < 0\<close> is reported as \<^verbatim>\<open>multipleOf\<close>, and the compile
    succeeds with the keyword in the list and \<open>v\<close> as its divisor;
  \<^item> \<^verbatim>\<open>{"maxLength":-1}\<close> is reported as \<^verbatim>\<open>maxLength\<close>, and the compile succeeds with the
    bound 4294967295; the same holds of \<^verbatim>\<open>minLength\<close>, \<^verbatim>\<open>maxItems\<close>, \<^verbatim>\<open>maxProperties\<close> and
    \<^verbatim>\<open>minProperties\<close>, each under its own name;
  \<^item> \<^verbatim>\<open>{"minItems":-1}\<close> is reported as \<^verbatim>\<open>maxLength\<close>, and the compile succeeds with the
    bound 4294967295;
  \<^item> \<^verbatim>\<open>{"date":5}\<close> is reported as \<^verbatim>\<open>format\<close>, and the compile succeeds;
  \<^item> \<^verbatim>\<open>{"format":5}\<close> and \<^verbatim>\<open>{"not":5}\<close> compile with no report;
  \<^item> \<^verbatim>\<open>{"items":[{"maximum":"3"}]}\<close> is reported as \<^verbatim>\<open>maximum\<close>, and the compile
    succeeds.
\<close>

theorem invalid_argument_does_not_abort:
  "(\<exists>s'. compile_schema ext (Suc n) (JObject [(''multipleOf'', JString ''3'')]) =
           Some (Inr (True, []), s')
         \<and> diagnostics s' = [''multipleOf''])
   \<and> (v < 0 \<longrightarrow>
        compile_schema ext (Suc n) (JObject [(''multipleOf'', JNumber v)]) =
          Some (Inr (False, [0]),
                \<lparr>heap = [construct ''multipleOf'' (Json_schema_multiple_of v)],
                 diagnostics = [''multipleOf''], all_keywords = [0]\<rparr>))
   \<and> compile_schema ext (Suc n) (JObject [(''maxLength'', JNumber (- 1))]) =
       Some (Inr (False, [0]),
             \<lparr>heap = [construct ''maxLength'' (Json_schema_max_len 4294967295)],
              diagnostics = [''maxLength''], all_keywords = [0]\<rparr>)
   \<and> compile_schema ext (Suc n) (JObject [(''minLength'', JNumber (- 1))]) =
       Some (Inr (False, [0]),
             \<lparr>heap = [construct ''minLength'' (Json_schema_min_len 4294967295)],
              diagnostics = [''minLength''], all_keywords = [0]\<rparr>)
   \<and> compile_schema ext (Suc n) (JObject [(''maxItems'', JNumber (- 1))]) =
       Some (Inr (False, [0]),
             \<lparr>heap = [construct ''maxItems'' (Json_schema_max_items 4294967295)],
              diagnostics = [''maxItems''], all_keywords = [0]\<rparr>)
   \<and> compile_schema ext (Suc n) (JObject [(''minItems'', JNumber (- 1))]) =
       Some (Inr (False, [0]),
             \<lparr>heap = [construct ''minItems'' (Json_schema_min_items 4294967295)],
              diagnostics = [''maxLength''], all_keywords = [0]\<rparr>)
   \<and> compile_schema ext (Suc n) (JObject [(''maxProperties'', JNumber (- 1))]) =
       Some (Inr (False, [0]),
             \<lparr>heap = [construct ''maxProperties'' (Json_schema_max_prop 4294967295)],
              diagnostics = [''maxProperties''], all_keywords = [0]\<rparr>)
   \<and> compile_schema ext (Suc n) (JObject [(''minProperties'', JNumber (- 1))]) =
       Some (Inr (False, [0]),
             \<lparr>heap = [construct ''minProperties'' (Json_schema_min_prop 4294967295)],
              diagnostics = [''minProperties''], all_keywords = [0]\<rparr>)
   \<and> compile_schema ext (Suc n) (JObject [(''date'', JNumber 5)]) =
       Some (Inr (False, [0]),
             \<lparr>heap = [construct ''format'' Json_schema_format],
              diagnostics = [''format''], all_keywords = [0]\<rparr>)
   \<and> compile_schema ext (Suc n) (JObject [(''format'', JNumber 5)]) =
       Some (Inr (False, [0]),
             \<lparr>heap = [construct [] Json_schema_keyword_base],
              diagnostics = [], all_keywords = [0]\<rparr>)
   \<and> compile_schema ext (Suc (Suc n)) (JObject [(''not'', JNumber 5)]) =
       Some (Inr (False, [0]),
             \<lparr>heap = [construct ''not'' (Json_schema_not None None [])],
              diagnostics = [], all_keywords = [0]\<rparr>)
   \<and> (\<exists>s'. compile_schema ext (Suc (Suc n))
               (JObject [(''items'', JArray [JObject [(''maximum'', JString ''3'')]])]) =
             Some (Inr (False, [0]), s')
           \<and> diagnostics s' = [''maximum''])"
  using wrong_kind_multiple_of_aborts [of ext n] negative_multiple_of_is_kept [of v ext n]
    negative_bounds_are_kept [of ext n]
    number_for_date_is_kept [of ext n] number_for_format_is_silent [of ext n]
    number_for_not_is_silent [of ext n] wrong_kind_under_items_is_dropped [of ext n]
  by blast

theorem invalid_argument_does_not_abort_witness:
  "(\<exists>s'. compile_schema sample_externals (Suc 0) (JObject [(''multipleOf'', JString ''3'')]) =
           Some (Inr (True, []), s')
         \<and> diagnostics s' = [''multipleOf''])
   \<and> compile_schema sample_externals (Suc 0) (JObject [(''multipleOf'', JNumber (- 1))]) =
       Some (Inr (False, [0]),
             \<lparr>heap = [construct ''multipleOf'' (Json_schema_multiple_of (- 1))],
              diagnostics = [''multipleOf''], all_keywords = [0]\<rparr>)
   \<and> compile_schema sample_externals (Suc 0) (JObject [(''maxLength'', JNumber (- 1))]) =
       Some (Inr (False, [0]),
             \<lparr>heap = [construct ''maxLength'' (Json_schema_max_len 4294967295)],
              diagnostics = [''maxLength''], all_keywords = [0]\<rparr>)
   \<and> compile_schema sample_externals (Suc 0) (JObject [(''minLength'', JNumber (- 1))]) =
       Some (Inr (False, [0]),
             \<lparr>heap = [construct ''minLength'' (Json_schema_min_len 4294967295)],
              diagnostics = [''minLength''], all_keywords = [0]\<rparr>)
   \<and> compile_schema sample_externals (Suc 0) (JObject [(''maxItems'', JNumber (- 1))]) =
       Some (Inr (False, [0]),
             \<lparr>heap = [construct ''maxItems'' (Json_schema_max_items 4294967295)],
              diagnostics = [''maxItems''], all_keywords = [0]\<rparr>)
   \<and> compile_schema sample_externals (Suc 0) (JObject [(''minItems'', JNumber (- 1))]) =
       Some (Inr (False, [0]),
             \<lparr>heap = [construct ''minItems'' (Json_schema_min_items 4294967295)],
              diagnostics = [''maxLength''], all_keywords = [0]\<rparr>)
   \<and> compile_schema sample_externals (Suc 0) (JObject [(''maxProperties'', JNumber (- 1))]) =
       Some (Inr (False, [0]),
             \<lparr>heap = [construct ''maxProperties'' (Json_schema_max_prop 4294967295)],
              diagnostics = [''maxProperties''], all_keywords = [0]\<rparr>)
   \<and> compile_schema sample_externals (Suc 0) (JObject [(''minProperties'', JNumber (- 1))]) =
       Some (Inr (False, [0]),
             \<lparr>heap = [construct ''minProperties'' (Json_schema_min_prop 4294967295)],
              diagnostics = [''minProperties''], all_keywords = [0]\<rparr>)
   \<and> compile_schema sample_externals (Suc 0) (JObject [(''date'', JNumber 5)]) =
       Some (Inr (False, [0]),
             \<lparr>heap = [construct ''format'' Json_schema_format],
              diagnostics = [''format''], all_keywords = [0]\<rparr>)
   \<and> compile_schema sample_externals (Suc 0) (JObject [(''format'', JNumber 5)]) =
       Some (Inr (False, [0]),
             \<lparr>heap = [construct [] Json_schema_keyword_base],
              diagnostics = [], all_keywords = [0]\<rparr>)
   \<and> compile_schema sample_externals (Suc (Suc 0)) (JObject [(''not'', JNumber 5)]) =
       Some (Inr (False, [0]),
             \<lparr>heap = [construct ''not'' (Json_schema_not None None [])],
              diagnostics = [], all_keywords = [0]\<rparr>)
   \<and> (\<exists>s'. compile_schema sample_externals (Suc (Suc 0))
               (JObject [(''items'', JArray [JObject [(''maximum'', JString ''3'')]])]) =
             Some (Inr (False, [0]), s')
           \<and> diagnostics s' = [''maximum''])"
  using invalid_argument_does_not_abort [of sample_externals 0 "- 1"]
  by simp

subsection \<open>\<^verbatim>\<open>multipleOf\<close> and the divisor zero\<close>

text \<open>
  C10. \<^verbatim>\<open>Json_schema_multiple_of::handle_keyword\<close> accepts every number, zero included:
  the schema \<^verbatim>\<open>{"multipleOf": v}\<close> compiles, with a report only when \<open>v\<close> is negative.
  With the divisor zero, \<^verbatim>\<open>validate\<close> on a number reaches the division
  \<^verbatim>\<open>val / this->multiple_of\<close>: nothing tests the divisor, and the validation of any
  number against the compiled \<^verbatim>\<open>{"multipleOf": 0}\<close> divides by zero.
\<close>

theorem multiple_of_zero_is_accepted_and_divides:
  "compile_schema ext (Suc n) (JObject [(''multipleOf'', JNumber v)]) =
     Some (Inr (False, [0]),
           \<lparr>heap = [construct ''multipleOf'' (Json_schema_multiple_of v)],
            diagnostics = (if v < 0 then [''multipleOf''] else []),
            all_keywords = [0]\<rparr>)
   \<and> Json_schema_multiple_of_validate 0 (JNumber val) = Inl Division_by_zero
   \<and> validate_schema ext (Suc m) [0] (JNumber val)
         [construct ''multipleOf'' (Json_schema_multiple_of 0)]
       = Some (Inl Division_by_zero, [construct ''multipleOf'' (Json_schema_multiple_of 0)])"
  by (simp add: compile_defs run_defs Json_schema_multiple_of_handle_keyword_def
      validate_schema_def virtual_validate_def Json_schema_multiple_of_validate_def)

theorem multiple_of_zero_is_accepted_and_divides_witness:
  "compile_schema sample_externals 1 (JObject [(''multipleOf'', JNumber 0)]) =
     Some (Inr (False, [0]),
           \<lparr>heap = [construct ''multipleOf'' (Json_schema_multiple_of 0)],
            diagnostics = [], all_keywords = [0]\<rparr>)
   \<and> Json_schema_multiple_of_validate 0 (JNumber 6) = Inl Division_by_zero
   \<and> validate_schema sample_externals 1 [0] (JNumber 6)
         [construct ''multipleOf'' (Json_schema_multiple_of 0)]
       = Some (Inl Division_by_zero, [construct ''multipleOf'' (Json_schema_multiple_of 0)])"
  using multiple_of_zero_is_accepted_and_divides [of sample_externals 0 0 6 0]
  by simp

end
